theory Spec2Isabelle
  imports Main "HOL-Library.Sublist"
begin

section \<open>The schema: trains, bookings, users\<close>

text \<open>
  The tables of the migration \<^verbatim>\<open>20250704034457_graceful_firefly.sql\<close>. A \<^verbatim>\<open>uuid\<close> is a
  natural number, a \<^verbatim>\<open>timestamptz\<close>, a \<^verbatim>\<open>time\<close> and a \<^verbatim>\<open>date\<close> are readings of a
  clock or calendar (natural numbers), an \<^verbatim>\<open>integer\<close> is an \<open>int\<close> with the 32-bit range
  checked where the procedure computes (PostgreSQL raises on overflow, it never wraps),
  and a \<^verbatim>\<open>decimal(10,2)\<close> price is counted in hundredths. A \<^verbatim>\<open>varchar\<close> is a list of
  characters. A nullable column is an \<open>option\<close>, with \<open>None\<close> for \<^verbatim>\<open>NULL\<close>. The columns
  called \<^verbatim>\<open>id\<close> and \<^verbatim>\<open>created_at\<close> exist in both tables and carry a prefix here.
\<close>

type_synonym uuid = nat
type_synonym timestamptz = nat

record train =
  t_id :: uuid
  train_number :: string
  train_name :: string
  source :: string
  destination :: string
  total_seats :: int
  available_seats :: int
  departure_time :: nat
  arrival_time :: nat
  journey_date :: nat
  price :: int
  t_created_at :: timestamptz
  updated_at :: timestamptz

record booking =
  b_id :: uuid
  user_id :: "uuid option"
  train_id :: "uuid option"
  seat_number :: int
  booking_status :: string
  passenger_name :: string
  passenger_age :: int
  passenger_gender :: string
  booking_date :: timestamptz
  b_created_at :: timestamptz

text \<open>
  The database: the two tables as lists of rows in insertion order, and the ids of
  \<^verbatim>\<open>auth.users\<close>, which \<^verbatim>\<open>bookings.user_id\<close> references.
\<close>

record db =
  trains :: "train list"
  bookings :: "booking list"
  users :: "uuid list"

section \<open>SQL conditions\<close>

text \<open>
  The conditions that can be raised while \<^verbatim>\<open>book_seat\<close> runs. The first five come from
  the data the statements are given: the overflow of \<^verbatim>\<open>MAX(seat_number) + 1\<close>, and the
  constraints that the schema declares on \<^verbatim>\<open>bookings\<close>. The last three come from the
  server and carry its text: the cancellation of the running query (a cancel request, a
  statement timeout), a failed \<^verbatim>\<open>ASSERT\<close>, and any other condition (a deadlock, a lock
  timeout, a failure of the storage). \<open>sqlerrm\<close> is the text PostgreSQL gives each of
  them (\<^verbatim>\<open>SQLERRM\<close>).
\<close>

datatype sql_error =
    IntegerOutOfRange
  | StringTooLong nat
  | NotNullViolation string
  | UniqueViolation string
  | ForeignKeyViolation string
  | QueryCanceled string
  | AssertFailure string
  | OtherCondition string

fun show_nat :: "nat \<Rightarrow> string" where
  "show_nat n =
     (if n < 10 then [char_of (48 + n)] else show_nat (n div 10) @ [char_of (48 + n mod 10)])"

definition sqlerrm :: "sql_error \<Rightarrow> string" where
  \<open>sqlerrm e = (case e of
      IntegerOutOfRange \<Rightarrow> ''integer out of range''
    | StringTooLong n \<Rightarrow> ''value too long for type character varying('' @ show_nat n @ '')''
    | NotNullViolation c \<Rightarrow>
        ''null value in column "'' @ c @
        ''" of relation "bookings" violates not-null constraint''
    | UniqueViolation c \<Rightarrow>
        ''duplicate key value violates unique constraint "'' @ c @ ''"''
    | ForeignKeyViolation c \<Rightarrow>
        ''insert or update on table "bookings" violates foreign key constraint "'' @ c @ ''"''
    | QueryCanceled m \<Rightarrow> m
    | AssertFailure m \<Rightarrow> m
    | OtherCondition m \<Rightarrow> m)\<close>

text \<open>
  \<^verbatim>\<open>a = b\<close> in a \<^verbatim>\<open>WHERE\<close> clause: with a \<^verbatim>\<open>NULL\<close> on either side the comparison is
  not true, so the row is not selected.
\<close>

definition sql_eq :: "'a option \<Rightarrow> 'a option \<Rightarrow> bool" where
  "sql_eq a b = (case a of None \<Rightarrow> False | Some x \<Rightarrow> (case b of None \<Rightarrow> False | Some y \<Rightarrow> x = y))"

text \<open>
  Storing a string in a \<^verbatim>\<open>varchar(n)\<close> column: a longer value is an error unless all
  the characters beyond the \<open>n\<close>-th are spaces, and is then cut to \<open>n\<close> characters.
\<close>

definition varchar_assign :: "nat \<Rightarrow> string option \<Rightarrow> sql_error + string option" where
  "varchar_assign n v = (case v of
      None \<Rightarrow> Inr None
    | Some s \<Rightarrow>
        if length s \<le> n then Inr (Some s)
        else if list_all (\<lambda>c. c = CHR '' '') (drop n s) then Inr (Some (take n s))
        else Inl (StringTooLong n))"

section \<open>The seat allocator: \<^verbatim>\<open>book_seat\<close>\<close>

record book_args =
  p_train_id :: "uuid option"
  p_user_id :: "uuid option"
  p_passenger_name :: "string option"
  p_passenger_age :: "int option"
  p_passenger_gender :: "string option"

text \<open>
  The JSON object that \<^verbatim>\<open>json_build_object\<close> returns. \<open>booking_id = None\<close> is the JSON
  \<^verbatim>\<open>null\<close>; \<open>seat_number_out = None\<close> is an object without the key \<^verbatim>\<open>seat_number\<close>.
\<close>

record book_json =
  success :: bool
  message :: string
  booking_id :: "uuid option"
  seat_number_out :: "int option"

text \<open>
  \<^verbatim>\<open>SELECT * INTO v_train_record FROM trains WHERE id = p_train_id FOR UPDATE\<close>: the first
  row that matches; without one the record variable is all \<^verbatim>\<open>NULL\<close>.
\<close>

definition select_train :: "db \<Rightarrow> uuid option \<Rightarrow> train option" where
  "select_train d tid = find (\<lambda>r. sql_eq (Some (t_id r)) tid) (trains d)"

text \<open>The seat numbers of the rows of \<^verbatim>\<open>bookings\<close> with \<^verbatim>\<open>train_id = tid\<close>.\<close>

definition seats_of :: "db \<Rightarrow> uuid option \<Rightarrow> int list" where
  "seats_of d tid = map seat_number (filter (\<lambda>b. sql_eq (train_id b) tid) (bookings d))"

text \<open>
  \<^verbatim>\<open>SELECT COALESCE(MAX(seat_number), 0) + 1 INTO v_seat_number FROM bookings
  WHERE train_id = p_train_id\<close>.
\<close>

definition next_seat_number :: "db \<Rightarrow> uuid option \<Rightarrow> sql_error + int" where
  "next_seat_number d tid =
     (let m = (case seats_of d tid of [] \<Rightarrow> 0 | s # ss \<Rightarrow> fold max ss s)
      in if m + 1 > 2147483647 then Inl IntegerOutOfRange else Inr (m + 1))"

text \<open>
  The \<^verbatim>\<open>INSERT INTO bookings\<close>. \<open>new_id\<close> is the value \<^verbatim>\<open>gen_random_uuid()\<close> draws for
  the row and \<open>now\<close> the value of \<^verbatim>\<open>now()\<close>. The checks come in the server's order: the
  length coercions of the target list, the \<^verbatim>\<open>NOT NULL\<close> columns, the unique indexes
  (with a \<^verbatim>\<open>NULL\<close> train id a row never conflicts), then the foreign keys.
\<close>

definition insert_booking ::
  "book_args \<Rightarrow> int \<Rightarrow> uuid \<Rightarrow> timestamptz \<Rightarrow> db \<Rightarrow> sql_error + db" where
  "insert_booking a v_seat_number new_id now d =
    (case varchar_assign 100 (p_passenger_name a) of Inl e \<Rightarrow> Inl e | Inr name \<Rightarrow>
    (case varchar_assign 10 (p_passenger_gender a) of Inl e \<Rightarrow> Inl e | Inr gender \<Rightarrow>
    (case name of None \<Rightarrow> Inl (NotNullViolation ''passenger_name'') | Some nm \<Rightarrow>
    (case p_passenger_age a of None \<Rightarrow> Inl (NotNullViolation ''passenger_age'') | Some age \<Rightarrow>
    (case gender of None \<Rightarrow> Inl (NotNullViolation ''passenger_gender'') | Some g \<Rightarrow>
     if new_id \<in> set (map b_id (bookings d)) then Inl (UniqueViolation ''bookings_pkey'')
     else if list_ex (\<lambda>b. sql_eq (train_id b) (p_train_id a) \<and> seat_number b = v_seat_number)
               (bookings d)
       then Inl (UniqueViolation ''bookings_train_id_seat_number_key'')
     else if (case p_user_id a of None \<Rightarrow> False | Some u \<Rightarrow> u \<notin> set (users d))
       then Inl (ForeignKeyViolation ''bookings_user_id_fkey'')
     else if (case p_train_id a of None \<Rightarrow> False | Some t \<Rightarrow> t \<notin> set (map t_id (trains d)))
       then Inl (ForeignKeyViolation ''bookings_train_id_fkey'')
     else Inr (d\<lparr>bookings := bookings d @
       [\<lparr>b_id = new_id, user_id = p_user_id a, train_id = p_train_id a,
         seat_number = v_seat_number, booking_status = ''confirmed'',
         passenger_name = nm, passenger_age = age, passenger_gender = g,
         booking_date = now, b_created_at = now\<rparr>]\<rparr>))))))"

text \<open>
  \<^verbatim>\<open>UPDATE trains SET available_seats = available_seats - 1, updated_at = now()
  WHERE id = p_train_id\<close>.
\<close>

definition decrement_available :: "uuid option \<Rightarrow> timestamptz \<Rightarrow> db \<Rightarrow> db" where
  "decrement_available tid now d =
     d\<lparr>trains := map (\<lambda>r. if sql_eq (Some (t_id r)) tid
                            then r\<lparr>available_seats := available_seats r - 1, updated_at := now\<rparr>
                            else r) (trains d)\<rparr>"

text \<open>
  The statements between \<^verbatim>\<open>BEGIN\<close> and \<^verbatim>\<open>EXCEPTION\<close>. \<open>Inl e\<close> is the condition \<open>e\<close>
  raised inside the block. The test \<^verbatim>\<open>v_train_record.available_seats <= 0\<close> is not true
  when no row was selected, because the field is \<^verbatim>\<open>NULL\<close> then.
\<close>

definition book_seat_body ::
  "book_args \<Rightarrow> uuid \<Rightarrow> timestamptz \<Rightarrow> db \<Rightarrow> sql_error + (book_json \<times> db)" where
  "book_seat_body a new_id now d =
    (let v_train_record = select_train d (p_train_id a) in
     if (case v_train_record of None \<Rightarrow> False | Some r \<Rightarrow> available_seats r \<le> 0)
     then Inr (\<lparr>success = False, message = ''No seats available'',
                booking_id = None, seat_number_out = None\<rparr>, d)
     else
      (case next_seat_number d (p_train_id a) of Inl e \<Rightarrow> Inl e | Inr v_seat_number \<Rightarrow>
      (case insert_booking a v_seat_number new_id now d of Inl e \<Rightarrow> Inl e | Inr d1 \<Rightarrow>
         Inr (\<lparr>success = True, message = ''Booking successful'',
               booking_id = Some new_id, seat_number_out = Some v_seat_number\<rparr>,
              decrement_available (p_train_id a) now d1))))"

text \<open>
  The whole function: \<^verbatim>\<open>EXCEPTION WHEN OTHERS\<close> undoes what the block did and returns
  the failure object.
\<close>

definition book_seat :: "book_args \<Rightarrow> uuid \<Rightarrow> timestamptz \<Rightarrow> db \<Rightarrow> book_json \<times> db" where
  "book_seat a new_id now d =
    (case book_seat_body a new_id now d of
       Inl e \<Rightarrow> (\<lparr>success = False, message = ''Booking failed: '' @ sqlerrm e,
                  booking_id = None, seat_number_out = None\<rparr>, d)
     | Inr r \<Rightarrow> r)"

subsection \<open>The redefinition of \<^verbatim>\<open>book_seat\<close> in the schema-update migration\<close>

text \<open>
  The migration headed \<^verbatim>\<open>Railway Management System - Database Schema Update\<close> (its
  text follows the components in \<^verbatim>\<open>src/frontend/src/pages/MyBookings.tsx\<close>) replaces the
  function (\<^verbatim>\<open>CREATE OR REPLACE FUNCTION book_seat\<close>). Its text differs in three
  places: after the \<^verbatim>\<open>SELECT ... FOR UPDATE\<close> it tests \<^verbatim>\<open>v_train_record.id IS NULL\<close> and
  returns \<^verbatim>\<open>Train not found\<close>; the insert names \<^verbatim>\<open>booking_status\<close> and gives it the value
  \<^verbatim>\<open>confirmed\<close> that the column has by default; and its failure objects carry the key
  \<^verbatim>\<open>seat_number\<close> with the value \<^verbatim>\<open>null\<close>, so that in the objects of this function
  \<open>seat_number_out = None\<close> is that \<^verbatim>\<open>null\<close>.
\<close>

definition book_seat_redefined_body ::
  "book_args \<Rightarrow> uuid \<Rightarrow> timestamptz \<Rightarrow> db \<Rightarrow> sql_error + (book_json \<times> db)" where
  "book_seat_redefined_body a new_id now d =
    (let v_train_record = select_train d (p_train_id a) in
     if v_train_record = None
     then Inr (\<lparr>success = False, message = ''Train not found'',
                booking_id = None, seat_number_out = None\<rparr>, d)
     else if (case v_train_record of None \<Rightarrow> False | Some r \<Rightarrow> available_seats r \<le> 0)
     then Inr (\<lparr>success = False, message = ''No seats available'',
                booking_id = None, seat_number_out = None\<rparr>, d)
     else
      (case next_seat_number d (p_train_id a) of Inl e \<Rightarrow> Inl e | Inr v_seat_number \<Rightarrow>
      (case insert_booking a v_seat_number new_id now d of Inl e \<Rightarrow> Inl e | Inr d1 \<Rightarrow>
         Inr (\<lparr>success = True, message = ''Booking successful'',
               booking_id = Some new_id, seat_number_out = Some v_seat_number\<rparr>,
              decrement_available (p_train_id a) now d1))))"

definition book_seat_redefined ::
  "book_args \<Rightarrow> uuid \<Rightarrow> timestamptz \<Rightarrow> db \<Rightarrow> book_json \<times> db" where
  "book_seat_redefined a new_id now d =
    (case book_seat_redefined_body a new_id now d of
       Inl e \<Rightarrow> (\<lparr>success = False, message = ''Booking failed: '' @ sqlerrm e,
                  booking_id = None, seat_number_out = None\<rparr>, d)
     | Inr r \<Rightarrow> r)"

subsection \<open>Conditions raised by the server while the block runs\<close>

text \<open>
  The four statements of the block. Besides what the data makes a statement raise, the
  server can raise a condition in any of them; \<open>env s = Some e\<close> says that statement \<open>s\<close>
  raises \<open>e\<close> when it is reached.
\<close>

datatype stmt = LockTrain | NextSeat | InsertBooking | UpdateTrain

text \<open>
  \<^verbatim>\<open>WHEN OTHERS\<close> traps every condition except the cancellation of the query and a failed
  assertion.
\<close>

definition trapped_by_others :: "sql_error \<Rightarrow> bool" where
  "trapped_by_others e =
     (case e of QueryCanceled m \<Rightarrow> False | AssertFailure m \<Rightarrow> False | _ \<Rightarrow> True)"

text \<open>
  The statements between \<^verbatim>\<open>BEGIN\<close> and \<^verbatim>\<open>EXCEPTION\<close> of
  \<^verbatim>\<open>20250704034457_graceful_firefly.sql\<close>, one after the other. \<open>Inl (e, dw)\<close> is the
  condition \<open>e\<close> raised when the block has changed the database to \<open>dw\<close>: the row of the
  insert is in \<open>dw\<close> when the update raises.
\<close>

definition book_seat_block ::
  "(stmt \<Rightarrow> sql_error option) \<Rightarrow> book_args \<Rightarrow> uuid \<Rightarrow> timestamptz \<Rightarrow> db \<Rightarrow>
   (sql_error \<times> db) + (book_json \<times> db)" where
  "book_seat_block env a new_id now d =
    (case env LockTrain of Some e \<Rightarrow> Inl (e, d) | None \<Rightarrow>
    (let v_train_record = select_train d (p_train_id a) in
     if (case v_train_record of None \<Rightarrow> False | Some r \<Rightarrow> available_seats r \<le> 0)
     then Inr (\<lparr>success = False, message = ''No seats available'',
                booking_id = None, seat_number_out = None\<rparr>, d)
     else
      (case env NextSeat of Some e \<Rightarrow> Inl (e, d) | None \<Rightarrow>
      (case next_seat_number d (p_train_id a) of Inl e \<Rightarrow> Inl (e, d) | Inr v_seat_number \<Rightarrow>
      (case env InsertBooking of Some e \<Rightarrow> Inl (e, d) | None \<Rightarrow>
      (case insert_booking a v_seat_number new_id now d of Inl e \<Rightarrow> Inl (e, d) | Inr d1 \<Rightarrow>
      (case env UpdateTrain of Some e \<Rightarrow> Inl (e, d1) | None \<Rightarrow>
         Inr (\<lparr>success = True, message = ''Booking successful'',
               booking_id = Some new_id, seat_number_out = Some v_seat_number\<rparr>,
              decrement_available (p_train_id a) now d1))))))))"

text \<open>
  The function under such conditions. A condition that \<^verbatim>\<open>WHEN OTHERS\<close> traps undoes what
  the block did and becomes the failure object. A condition that it does not trap leaves
  the function (\<open>Inl e\<close>): the caller's statement fails and its transaction is rolled
  back, so the database is the one before the call in that case too.
\<close>

definition book_seat_under ::
  "(stmt \<Rightarrow> sql_error option) \<Rightarrow> book_args \<Rightarrow> uuid \<Rightarrow> timestamptz \<Rightarrow> db \<Rightarrow>
   (sql_error + book_json) \<times> db" where
  "book_seat_under env a new_id now d =
    (case book_seat_block env a new_id now d of
       Inl (e, dw) \<Rightarrow>
         if trapped_by_others e
         then (Inr \<lparr>success = False, message = ''Booking failed: '' @ sqlerrm e,
                    booking_id = None, seat_number_out = None\<rparr>, d)
         else (Inl e, d)
     | Inr (r, d') \<Rightarrow> (Inr r, d'))"

section \<open>The gateway: the Express routes\<close>

text \<open>
  The routes reach the database through the client object \<^verbatim>\<open>supabase\<close> of
  \<^verbatim>\<open>config/database.js\<close>. Every call through it resolves to \<^verbatim>\<open>{ data, error }\<close> or
  rejects; the routes branch on both. What the statement does on the tables is modelled
  here; whether the call itself fails on the way (transport, service) is the \<open>fault\<close>
  the environment supplies: none, an \<^verbatim>\<open>error\<close> object, or a rejection that lands in the
  route's \<^verbatim>\<open>catch\<close>. \<open>ClientError\<close> is the body \<^verbatim>\<open>{ error: error.message }\<close>, whose text
  comes from the client and not from the repository. The routes run behind
  \<^verbatim>\<open>authenticateToken\<close> or \<^verbatim>\<open>authenticateAdmin\<close>; the handlers are modelled from the
  point where the middleware has set \<^verbatim>\<open>req.user\<close>.
\<close>

datatype fault = NoFault | ReturnsError | Throws

datatype body =
    ErrorBody string
  | ClientError
  | MessageBody string
  | BookedBody string "uuid option" "int option"
  | TrainsBody "train list" nat
  | TrainBody string train

datatype response = Response (status: nat) (body: body)

subsection \<open>\<^verbatim>\<open>DELETE /bookings/:id\<close>: cancellation\<close>

record cancel_env =
  fetch_fault :: fault
  delete_fault :: fault
  update_fault :: fault

text \<open>
  The handler: fetch the caller's booking with \<^verbatim>\<open>.single()\<close> (an error unless exactly one
  row matches), delete it, then the third call,
  \<^verbatim>\<open>.update({ available_seats: supabase.raw('available_seats + 1') }).eq('id', train_id)\<close>.
  The client of \<^verbatim>\<open>supabase-js\<close> has no method \<^verbatim>\<open>raw\<close>: building the argument throws before
  any request is made, and the route's \<^verbatim>\<open>catch\<close> answers 500. So the third call throws
  also when the environment adds no fault. \<open>update_fault = ReturnsError\<close> is the route's
  branch \<^verbatim>\<open>if (updateError)\<close>, for an update that is sent and comes back with an error:
  it is only logged and the answer is the success message. On none of these paths is
  the counter of the train changed. The \<^verbatim>\<open>details\<close> that the body of a failed delete
  carries besides its \<^verbatim>\<open>error\<close> are left out.
\<close>

definition cancel_booking :: "uuid \<Rightarrow> uuid \<Rightarrow> cancel_env \<Rightarrow> db \<Rightarrow> response \<times> db" where
  "cancel_booking bid uid env d =
    (let mine = (\<lambda>b. b_id b = bid \<and> user_id b = Some uid) in
     case fetch_fault env of
       Throws \<Rightarrow> (Response 500 (ErrorBody ''Failed to cancel booking''), d)
     | ReturnsError \<Rightarrow> (Response 404 (ErrorBody ''Booking not found''), d)
     | NoFault \<Rightarrow>
        (case filter mine (bookings d) of
           [booking] \<Rightarrow>
             (case delete_fault env of
                Throws \<Rightarrow> (Response 500 (ErrorBody ''Failed to cancel booking''), d)
              | ReturnsError \<Rightarrow> (Response 500 (ErrorBody ''Failed to delete booking''), d)
              | NoFault \<Rightarrow>
                 (let d1 = d\<lparr>bookings := filter (\<lambda>b. \<not> mine b) (bookings d)\<rparr> in
                  case update_fault env of
                    Throws \<Rightarrow> (Response 500 (ErrorBody ''Failed to cancel booking''), d1)
                  | ReturnsError \<Rightarrow>
                      (Response 200 (MessageBody ''Booking cancelled successfully''), d1)
                  | NoFault \<Rightarrow> (Response 500 (ErrorBody ''Failed to cancel booking''), d1)))
         | _ \<Rightarrow> (Response 404 (ErrorBody ''Booking not found''), d)))"

text \<open>
  \<^verbatim>\<open>GET /bookings/:id\<close>, the query of one booking by its owner. \<open>Inr\<close> is the answer 200,
  whose body is the booking (joined with its train in the source).
\<close>

definition get_booking :: "uuid \<Rightarrow> uuid \<Rightarrow> fault \<Rightarrow> db \<Rightarrow> (response + booking)" where
  "get_booking bid uid f d =
    (case f of
       Throws \<Rightarrow> Inl (Response 500 (ErrorBody ''Failed to fetch booking''))
     | ReturnsError \<Rightarrow> Inl (Response 404 (ErrorBody ''Booking not found''))
     | NoFault \<Rightarrow>
        (case filter (\<lambda>b. b_id b = bid \<and> user_id b = Some uid) (bookings d) of
           [booking] \<Rightarrow> Inr booking
         | _ \<Rightarrow> Inl (Response 404 (ErrorBody ''Booking not found''))))"

subsection \<open>\<^verbatim>\<open>PUT /trains/:id\<close>: the administrator's update\<close>

text \<open>
  The handler passes \<^verbatim>\<open>req.body\<close> to \<^verbatim>\<open>.update(updates)\<close> as it is. Of the columns an
  update object can name, the two seat counters are modelled; \<open>None\<close> is a key that the
  object does not have. An object that assigns neither, names another column or breaks
  a constraint of another column is outside this model, and so is the trigger of the
  schema-update migration that refreshes \<^verbatim>\<open>updated_at\<close> on every update of a train.
  \<^verbatim>\<open>.single()\<close> makes a call that matches no row an error.
\<close>

record train_updates =
  u_total_seats :: "int option"
  u_available_seats :: "int option"

definition in_integer_range :: "int \<Rightarrow> bool" where
  "in_integer_range i = (- 2147483648 \<le> i \<and> i \<le> 2147483647)"

definition apply_updates :: "train_updates \<Rightarrow> train \<Rightarrow> train" where
  "apply_updates u r =
     r\<lparr>total_seats := (case u_total_seats u of None \<Rightarrow> total_seats r | Some n \<Rightarrow> n),
       available_seats := (case u_available_seats u of None \<Rightarrow> available_seats r | Some n \<Rightarrow> n)\<rparr>"

definition update_train :: "uuid \<Rightarrow> train_updates \<Rightarrow> fault \<Rightarrow> db \<Rightarrow> response \<times> db" where
  "update_train tid u f d =
    (case f of
       Throws \<Rightarrow> (Response 500 (ErrorBody ''Failed to update train''), d)
     | ReturnsError \<Rightarrow> (Response 400 ClientError, d)
     | NoFault \<Rightarrow>
        (if \<not> (case u_total_seats u of None \<Rightarrow> True | Some n \<Rightarrow> in_integer_range n)
          then (Response 400 ClientError, d)
         else if \<not> (case u_available_seats u of None \<Rightarrow> True | Some n \<Rightarrow> in_integer_range n)
          then (Response 400 ClientError, d)
         else
          (case filter (\<lambda>r. t_id r = tid) (trains d) of
             [r] \<Rightarrow> (Response 200 (TrainBody ''Train updated successfully'' (apply_updates u r)),
                     d\<lparr>trains := map (\<lambda>r. if t_id r = tid then apply_updates u r else r)
                                      (trains d)\<rparr>)
           | _ \<Rightarrow> (Response 400 ClientError, d))))"

subsection \<open>\<^verbatim>\<open>GET /trains/search\<close>\<close>

text \<open>
  \<^verbatim>\<open>column ILIKE pattern\<close>: \<^verbatim>\<open>%\<close> stands for any run of characters, \<^verbatim>\<open>_\<close> for any one
  character, and a backslash takes the character after it literally. A pattern whose
  last character is an unescaped backslash is an error on the server and no match here;
  the route's patterns end with \<^verbatim>\<open>%\<close> and never have that shape.
\<close>

fun like_match :: "string \<Rightarrow> string \<Rightarrow> bool" where
  "like_match [] t = (t = [])"
| "like_match (p # ps) t =
     (if p = CHR ''%'' then
        like_match ps t \<or> (case t of [] \<Rightarrow> False | c # ts \<Rightarrow> like_match (p # ps) ts)
      else if p = CHR ''_'' then
        (case t of [] \<Rightarrow> False | c # ts \<Rightarrow> like_match ps ts)
      else if p = CHR 0x5C then
        (case ps of [] \<Rightarrow> False
         | q # qs \<Rightarrow> (case t of [] \<Rightarrow> False | c # ts \<Rightarrow> c = q \<and> like_match qs ts))
      else
        (case t of [] \<Rightarrow> False | c # ts \<Rightarrow> c = p \<and> like_match ps ts))"

text \<open>Case folding, for the letters A to Z.\<close>

definition lower_char :: "char \<Rightarrow> char" where
  "lower_char c =
     (case map_of (zip ''ABCDEFGHIJKLMNOPQRSTUVWXYZ'' ''abcdefghijklmnopqrstuvwxyz'') c of
        None \<Rightarrow> c | Some l \<Rightarrow> l)"

definition lower :: "string \<Rightarrow> string" where
  "lower s = map lower_char s"

text \<open>
  \<^verbatim>\<open>.ilike(column, pattern)\<close>: the REST layer reads \<^verbatim>\<open>*\<close> in the pattern as \<^verbatim>\<open>%\<close>, then
  the server matches without regard to case.
\<close>

definition ilike :: "string \<Rightarrow> string \<Rightarrow> bool" where
  "ilike column pattern =
     like_match (lower (map (\<lambda>c. if c = CHR ''*'' then CHR ''%'' else c) pattern)) (lower column)"

text \<open>A string without the characters that a pattern or the REST layer read specially.\<close>

definition plain :: "string \<Rightarrow> bool" where
  "plain p = list_all (\<lambda>c. c \<noteq> CHR ''%'' \<and> c \<noteq> CHR ''_'' \<and> c \<noteq> CHR 0x5C \<and> c \<noteq> CHR ''*'') p"

text \<open>
  The handler. \<open>None\<close> is a query parameter that is absent; an empty string is falsy as
  well. The date is the parsed \<^verbatim>\<open>date\<close> parameter when there is a non-empty one.
\<close>

definition search_trains ::
  "string option \<Rightarrow> string option \<Rightarrow> nat option \<Rightarrow> fault \<Rightarrow> db \<Rightarrow> response" where
  "search_trains src dst date f d =
    (case (src, dst) of
       (Some s, Some t) \<Rightarrow>
         if s = [] \<or> t = [] then Response 400 (ErrorBody ''Source and destination are required'')
         else
          (case f of
             Throws \<Rightarrow> Response 500 (ErrorBody ''Search failed'')
           | ReturnsError \<Rightarrow> Response 500 ClientError
           | NoFault \<Rightarrow>
              (let rows = filter (\<lambda>r. ilike (source r) (''%'' @ s @ ''%'')
                                     \<and> ilike (destination r) (''%'' @ t @ ''%'')
                                     \<and> available_seats r > 0
                                     \<and> (case date of None \<Rightarrow> True | Some j \<Rightarrow> journey_date r = j))
                                 (trains d);
                   found = sort_key departure_time rows
               in Response 200 (TrainsBody found (length found))))
     | _ \<Rightarrow> Response 400 (ErrorBody ''Source and destination are required''))"

subsection \<open>\<^verbatim>\<open>POST /bookings\<close>\<close>

text \<open>
  The fields of the JSON request body, with \<open>JUndefined\<close> for a key that is missing, and
  JavaScript's truthiness. Numbers are integers here (a fraction is truthy like any
  number other than zero); \<open>JStructured\<close> is an array or an object.
\<close>

datatype jsval = JUndefined | JNull | JBool bool | JNum int | JStr string | JStructured

fun truthy :: "jsval \<Rightarrow> bool" where
  "truthy JUndefined = False"
| "truthy JNull = False"
| "truthy (JBool b) = b"
| "truthy (JNum n) = (n \<noteq> 0)"
| "truthy (JStr s) = (s \<noteq> [])"
| "truthy JStructured = True"

record booking_request =
  req_train_id :: jsval
  req_passenger_name :: jsval
  req_passenger_age :: jsval
  req_passenger_gender :: jsval

text \<open>
  The handler. \<open>coerce\<close> is the REST layer's translation of the JSON arguments of
  \<^verbatim>\<open>supabase.rpc('book_seat', ...)\<close> into the SQL arguments, or its refusal (an \<^verbatim>\<open>error\<close>);
  it is not code of the repository and stays a parameter.
\<close>

definition post_booking ::
  "(booking_request \<Rightarrow> uuid \<Rightarrow> book_args option) \<Rightarrow> fault \<Rightarrow> uuid \<Rightarrow> timestamptz \<Rightarrow>
   booking_request \<Rightarrow> uuid \<Rightarrow> db \<Rightarrow> response \<times> db" where
  "post_booking coerce f new_id now req uid d =
    (if \<not> truthy (req_train_id req) \<or> \<not> truthy (req_passenger_name req)
        \<or> \<not> truthy (req_passenger_age req) \<or> \<not> truthy (req_passenger_gender req)
     then (Response 400 (ErrorBody ''All passenger details are required''), d)
     else
      (case f of
         Throws \<Rightarrow> (Response 500 (ErrorBody ''Booking failed''), d)
       | ReturnsError \<Rightarrow> (Response 500 ClientError, d)
       | NoFault \<Rightarrow>
          (case coerce req uid of
             None \<Rightarrow> (Response 500 ClientError, d)
           | Some a \<Rightarrow>
              (let (result, d') = book_seat a new_id now d in
               if \<not> success result then (Response 400 (ErrorBody (message result)), d')
               else (Response 201 (BookedBody (message result) (booking_id result)
                                     (seat_number_out result)), d')))))"

section \<open>Runs of the allocator and the cancellation\<close>

datatype operation =
    BookSeat book_args uuid timestamptz
  | CancelBooking uuid uuid cancel_env

fun step :: "db \<Rightarrow> operation \<Rightarrow> db" where
  "step d (BookSeat a new_id now) = snd (book_seat a new_id now d)"
| "step d (CancelBooking bid uid env) = snd (cancel_booking bid uid env d)"

definition run :: "db \<Rightarrow> operation list \<Rightarrow> db" where
  "run d ops = foldl step d ops"

section \<open>Invariants of the seat counters\<close>

text \<open>
  Seat uniqueness, per train: the seat numbers of the train's bookings are pairwise
  distinct, and there are at most \<^verbatim>\<open>total_seats\<close> of them. A row of \<^verbatim>\<open>bookings\<close> is a
  live booking: cancellation deletes the row.
\<close>

definition seat_uniqueness :: "db \<Rightarrow> bool" where
  "seat_uniqueness d =
     list_all (\<lambda>r. distinct (seats_of d (Some (t_id r))) \<and>
                    int (length (seats_of d (Some (t_id r)))) \<le> total_seats r) (trains d)"

text \<open>The bounds \<^verbatim>\<open>0 <= available_seats <= total_seats\<close>, for every train.\<close>

definition seats_in_bounds :: "db \<Rightarrow> bool" where
  "seats_in_bounds d =
     list_all (\<lambda>r. 0 \<le> available_seats r \<and> available_seats r \<le> total_seats r) (trains d)"

text \<open>
  The state of a database that only the allocator and the cancellation have written
  since its trains were created: \<^verbatim>\<open>trains.id\<close> is a key, and for every train the seat
  numbers are distinct, the counter is not negative, and the free seats and the booked
  seats together do not exceed the capacity.
\<close>

definition counters_consistent :: "db \<Rightarrow> bool" where
  "counters_consistent d =
     (distinct (map t_id (trains d)) \<and>
      list_all (\<lambda>r. distinct (seats_of d (Some (t_id r))) \<and> 0 \<le> available_seats r \<and>
                     available_seats r + int (length (seats_of d (Some (t_id r)))) \<le> total_seats r)
        (trains d))"

section \<open>Example states\<close>

text \<open>
  The five trains that the migration inserts (ids in insertion order, times in seconds
  after midnight, dates as year, month and day), with two registered users and no
  booking yet; a train with a single seat, before and after that seat is booked; and a
  well-formed call of \<^verbatim>\<open>book_seat\<close>.
\<close>

definition seed_trains :: "train list" where
  "seed_trains =
    [\<lparr>t_id = 1, train_number = ''12345'', train_name = ''Rajdhani Express'', source = ''Delhi'',
      destination = ''Mumbai'', total_seats = 100, available_seats = 100,
      departure_time = 21600, arrival_time = 72000, journey_date = 20250115, price = 250000,
      t_created_at = 0, updated_at = 0\<rparr>,
     \<lparr>t_id = 2, train_number = ''67890'', train_name = ''Shatabdi Express'', source = ''Delhi'',
      destination = ''Chandigarh'', total_seats = 80, available_seats = 80,
      departure_time = 25200, arrival_time = 39600, journey_date = 20250115, price = 80000,
      t_created_at = 0, updated_at = 0\<rparr>,
     \<lparr>t_id = 3, train_number = ''11111'', train_name = ''Duronto Express'', source = ''Mumbai'',
      destination = ''Kolkata'', total_seats = 120, available_seats = 120,
      departure_time = 79200, arrival_time = 64800, journey_date = 20250116, price = 320000,
      t_created_at = 0, updated_at = 0\<rparr>,
     \<lparr>t_id = 4, train_number = ''22222'', train_name = ''Garib Rath'', source = ''Delhi'',
      destination = ''Kolkata'', total_seats = 90, available_seats = 90,
      departure_time = 82800, arrival_time = 61200, journey_date = 20250116, price = 180000,
      t_created_at = 0, updated_at = 0\<rparr>,
     \<lparr>t_id = 5, train_number = ''33333'', train_name = ''Humsafar Express'', source = ''Mumbai'',
      destination = ''Delhi'', total_seats = 100, available_seats = 100,
      departure_time = 19800, arrival_time = 70200, journey_date = 20250115, price = 280000,
      t_created_at = 0, updated_at = 0\<rparr>]"

definition seed_db :: db where
  "seed_db = \<lparr>trains = seed_trains, bookings = [], users = [71, 72]\<rparr>"

definition single_seat_db :: db where
  "single_seat_db =
    \<lparr>trains = [\<lparr>t_id = 10, train_number = ''T'', train_name = ''T'', source = ''A'',
                 destination = ''B'', total_seats = 1, available_seats = 1,
                 departure_time = 0, arrival_time = 3600, journey_date = 20250115,
                 price = 100, t_created_at = 0, updated_at = 0\<rparr>],
     bookings = [], users = [71, 72]\<rparr>"

definition asha :: book_args where
  "asha = \<lparr>p_train_id = Some 2, p_user_id = Some 71, p_passenger_name = Some ''Asha'',
            p_passenger_age = Some 30, p_passenger_gender = Some ''F''\<rparr>"

definition sold_out_db :: db where
  "sold_out_db = snd (book_seat (asha\<lparr>p_train_id := Some 10\<rparr>) 900 5 single_seat_db)"

definition no_faults :: cancel_env where
  "no_faults = \<lparr>fetch_fault = NoFault, delete_fault = NoFault, update_fault = NoFault\<rparr>"

text \<open>
  No condition from the server, and a statement timeout that strikes in the update.
\<close>

definition no_conditions :: "stmt \<Rightarrow> sql_error option" where
  "no_conditions s = None"

definition timeout_in_update :: "stmt \<Rightarrow> sql_error option" where
  "timeout_in_update s =
     (if s = UpdateTrain then Some (QueryCanceled ''canceling statement due to statement timeout'')
      else None)"

definition deadlock_in_update :: "stmt \<Rightarrow> sql_error option" where
  "deadlock_in_update s =
     (if s = UpdateTrain then Some (OtherCondition ''deadlock detected'') else None)"

text \<open>Three seats booked on the second train, and the third of them cancelled.\<close>

definition three_booked :: db where
  "three_booked = run seed_db [BookSeat asha 900 5, BookSeat asha 901 6, BookSeat asha 902 7]"

definition third_cancelled :: db where
  "third_cancelled = step three_booked (CancelBooking 902 71 no_faults)"

section \<open>Facts about the statements of \<^verbatim>\<open>book_seat\<close>\<close>

lemma sql_eq_Some [simp]: "sql_eq (Some x) (Some y) = (x = y)"
  by (simp add: sql_eq_def)

lemma sql_eq_None [simp]: "sql_eq a None = False" "sql_eq None b = False"
  by (simp_all add: sql_eq_def split: option.splits)

lemma seats_of_trains_update [simp]: "seats_of (d\<lparr>trains := ts\<rparr>) tid = seats_of d tid"
  by (simp add: seats_of_def)

lemma next_seat_number_Inr:
  "next_seat_number d tid = Inr s \<longleftrightarrow>
     s = (if seats_of d tid = [] then 1 else Max (set (seats_of d tid)) + 1) \<and> s \<le> 2147483647"
proof (cases "seats_of d tid")
  case Nil
  then show ?thesis by (auto simp: next_seat_number_def)
next
  case (Cons x xs)
  define m where "m = Max (set (x # xs))"
  have "fold max xs x = m" unfolding m_def by (simp only: Max.set_eq_fold)
  then have "next_seat_number d tid =
      (if m + 1 > 2147483647 then Inl IntegerOutOfRange else Inr (m + 1))"
    using Cons by (simp add: next_seat_number_def)
  moreover have "(if seats_of d tid = [] then 1 else Max (set (seats_of d tid)) + 1) = m + 1"
    using Cons by (simp only: m_def list.simps if_False)
  ultimately show ?thesis by auto
qed

lemma next_seat_number_above:
  assumes "next_seat_number d tid = Inr s" and "x \<in> set (seats_of d tid)"
  shows "x < s"
proof -
  from assms(2) have ne: "seats_of d tid \<noteq> []" by auto
  with assms(1) have "s = Max (set (seats_of d tid)) + 1" by (simp add: next_seat_number_Inr)
  moreover have "x \<le> Max (set (seats_of d tid))" using assms(2) by simp
  ultimately show ?thesis by simp
qed

lemma varchar_assign_Some:
  "varchar_assign n v = Inr (Some s) \<longleftrightarrow>
     (\<exists>x. v = Some x \<and> s = take n x \<and> list_all (\<lambda>c. c = CHR '' '') (drop n x))"
  by (auto simp: varchar_assign_def split: option.splits)

lemma insert_booking_Inr:
  assumes "insert_booking a s i n d = Inr d1"
  obtains name age gender where
    "p_passenger_name a = Some name" "list_all (\<lambda>c. c = CHR '' '') (drop 100 name)"
    "p_passenger_age a = Some age"
    "p_passenger_gender a = Some gender" "list_all (\<lambda>c. c = CHR '' '') (drop 10 gender)"
    "i \<notin> b_id ` set (bookings d)"
    "\<And>t. p_train_id a = Some t \<Longrightarrow> t \<in> t_id ` set (trains d)"
    "\<And>u. p_user_id a = Some u \<Longrightarrow> u \<in> set (users d)"
    "d1 = d\<lparr>bookings := bookings d @
       [\<lparr>b_id = i, user_id = p_user_id a, train_id = p_train_id a,
         seat_number = s, booking_status = ''confirmed'',
         passenger_name = take 100 name, passenger_age = age,
         passenger_gender = take 10 gender, booking_date = n, b_created_at = n\<rparr>]\<rparr>"
  using assms
  by (auto simp: insert_booking_def varchar_assign_Some split: sum.splits option.splits if_splits)

lemma select_train_None_iff:
  "select_train d (Some t) = None \<longleftrightarrow> t \<notin> t_id ` set (trains d)"
  by (auto simp: select_train_def find_None_iff)

lemma insert_booking_missing_train:
  assumes "p_train_id a = Some t" "t \<notin> t_id ` set (trains d)"
  shows "\<exists>e. insert_booking a s i n d = Inl e"
proof (cases "insert_booking a s i n d")
  case (Inl e)
  then show ?thesis by blast
next
  case (Inr d1)
  then show ?thesis using assms by (elim insert_booking_Inr) blast
qed

lemma book_seat_no_train:
  assumes "select_train d (p_train_id a) = None"
  shows "book_seat_body a i n d =
     (case next_seat_number d (p_train_id a) of Inl e \<Rightarrow> Inl e | Inr s \<Rightarrow>
        (case insert_booking a s i n d of Inl e \<Rightarrow> Inl e | Inr d1 \<Rightarrow>
           Inr (\<lparr>success = True, message = ''Booking successful'',
                 booking_id = Some i, seat_number_out = Some s\<rparr>,
                decrement_available (p_train_id a) n d1)))"
  using assms by (simp add: book_seat_body_def)

lemma book_seat_raise:
  assumes "book_seat_body a i n d = Inl e"
  shows "book_seat a i n d =
     (\<lparr>success = False, message = ''Booking failed: '' @ sqlerrm e,
       booking_id = None, seat_number_out = None\<rparr>, d)"
  using assms by (simp add: book_seat_def)

lemma book_seat_success:
  assumes "book_seat a i n d = (r, d')" "success r"
  obtains s d1 where
    "case select_train d (p_train_id a) of None \<Rightarrow> True | Some tr \<Rightarrow> 0 < available_seats tr"
    "next_seat_number d (p_train_id a) = Inr s"
    "insert_booking a s i n d = Inr d1"
    "r = \<lparr>success = True, message = ''Booking successful'',
           booking_id = Some i, seat_number_out = Some s\<rparr>"
    "d' = decrement_available (p_train_id a) n d1"
  using assms
  by (auto simp: book_seat_def book_seat_body_def Let_def split: sum.splits if_splits option.splits)

lemma book_seat_failure:
  assumes "book_seat a i n d = (r, d')" "\<not> success r"
  shows "d' = d"
  using assms
  by (auto simp: book_seat_def book_seat_body_def Let_def split: sum.splits if_splits option.splits)

lemma find_map_keep:
  assumes "\<And>x. P (f x) = P x"
  shows "find P (map f xs) = map_option f (find P xs)"
  using assms by (induction xs) auto

lemma find_SomeD: "find P xs = Some x \<Longrightarrow> P x \<and> x \<in> set xs"
  by (induction xs) (auto split: if_splits)

lemma select_train_decrement:
  assumes "trains d1 = trains d"
  shows "select_train (decrement_available (Some t) n d1) (Some t) =
     map_option (\<lambda>x. x\<lparr>available_seats := available_seats x - 1, updated_at := n\<rparr>)
       (select_train d (Some t))"
proof -
  let ?f = "\<lambda>r. if t_id r = t
                 then r\<lparr>available_seats := available_seats r - 1, updated_at := n\<rparr> else r"
  have "find (\<lambda>r. t_id r = t) (map ?f (trains d)) =
        map_option ?f (find (\<lambda>r. t_id r = t) (trains d))"
    by (rule find_map_keep) simp
  moreover have "map_option ?f (find (\<lambda>r. t_id r = t) (trains d)) =
     map_option (\<lambda>x. x\<lparr>available_seats := available_seats x - 1, updated_at := n\<rparr>)
       (find (\<lambda>r. t_id r = t) (trains d))"
    by (cases "find (\<lambda>r. t_id r = t) (trains d)") (auto dest: find_SomeD)
  ultimately show ?thesis
    using assms by (simp add: select_train_def decrement_available_def)
qed

lemmas run_defs = run_def three_booked_def third_cancelled_def no_faults_def cancel_booking_def

lemmas eval_defs = book_seat_def book_seat_body_def select_train_def seed_db_def seed_trains_def
  single_seat_db_def asha_def next_seat_number_def seats_of_def insert_booking_def
  varchar_assign_def decrement_available_def sqlerrm_def

section \<open>The allocator's postcondition\<close>

text \<open>
  C3, as the claim states it, fails on the passenger details: a name of 101 characters
  that ends in a space passes the \<^verbatim>\<open>varchar(100)\<close> column, the call succeeds, and the row
  holds the first 100 characters, not the name that was supplied.
\<close>

theorem book_seat_details_counterexample:
  "success (fst (book_seat (asha\<lparr>p_passenger_name := Some (''Asha'' @ replicate 97 CHR '' '')\<rparr>)
                   900 5 seed_db)) \<and>
   passenger_name (last (bookings (snd (book_seat
       (asha\<lparr>p_passenger_name := Some (''Asha'' @ replicate 97 CHR '' '')\<rparr>) 900 5 seed_db))))
     \<noteq> ''Asha'' @ replicate 97 CHR '' ''"
proof -
  have "passenger_name (last (bookings (snd (book_seat
       (asha\<lparr>p_passenger_name := Some (''Asha'' @ replicate 97 CHR '' '')\<rparr>) 900 5 seed_db))))
     = ''Asha'' @ replicate 96 CHR '' ''"
    by (simp add: eval_defs)
  moreover have "success (fst (book_seat
       (asha\<lparr>p_passenger_name := Some (''Asha'' @ replicate 97 CHR '' '')\<rparr>) 900 5 seed_db))"
    by (simp add: eval_defs)
  ultimately show ?thesis by simp
qed

text \<open>
  C3, amended. Whenever \<^verbatim>\<open>book_seat\<close> succeeds on train \<open>t\<close>, the train exists and had a
  free seat; exactly one row is appended to \<^verbatim>\<open>bookings\<close>, with status \<^verbatim>\<open>confirmed\<close>, the
  supplied user, train and age, the supplied name and gender as the columns store them
  (the first 100 and the first 10 characters, everything cut being spaces), and the seat
  number one above the largest seat number held on \<open>t\<close>, or 1 when \<open>t\<close> has no booking;
  every row of \<open>t\<close> in \<^verbatim>\<open>trains\<close> has \<^verbatim>\<open>available_seats\<close> one lower and \<^verbatim>\<open>updated_at\<close>
  set to the current time, and no other row changes; the result is the success object
  with the new booking id and the seat number.
\<close>

theorem book_seat_success_postcondition:
  assumes "book_seat a new_id now d = (r, d')" and "success r" and "p_train_id a = Some t"
  shows "\<exists>tr name age gender s.
      select_train d (Some t) = Some tr \<and> 0 < available_seats tr \<and>
      p_passenger_name a = Some name \<and> p_passenger_age a = Some age \<and>
      p_passenger_gender a = Some gender \<and>
      list_all (\<lambda>c. c = CHR '' '') (drop 100 name) \<and>
      list_all (\<lambda>c. c = CHR '' '') (drop 10 gender) \<and>
      s = (if seats_of d (Some t) = [] then 1 else Max (set (seats_of d (Some t))) + 1) \<and>
      bookings d' = bookings d @
        [\<lparr>b_id = new_id, user_id = p_user_id a, train_id = Some t, seat_number = s,
          booking_status = ''confirmed'', passenger_name = take 100 name,
          passenger_age = age, passenger_gender = take 10 gender,
          booking_date = now, b_created_at = now\<rparr>] \<and>
      select_train d' (Some t) =
        Some (tr\<lparr>available_seats := available_seats tr - 1, updated_at := now\<rparr>) \<and>
      trains d' = map (\<lambda>x. if t_id x = t
                             then x\<lparr>available_seats := available_seats x - 1, updated_at := now\<rparr>
                             else x) (trains d) \<and>
      users d' = users d \<and>
      r = \<lparr>success = True, message = ''Booking successful'',
           booking_id = Some new_id, seat_number_out = Some s\<rparr>"
proof -
  from assms(1,2) obtain s d1 where
    avail: "case select_train d (p_train_id a) of None \<Rightarrow> True | Some tr \<Rightarrow> 0 < available_seats tr"
    and seat: "next_seat_number d (p_train_id a) = Inr s"
    and ins: "insert_booking a s new_id now d = Inr d1"
    and r: "r = \<lparr>success = True, message = ''Booking successful'',
           booking_id = Some new_id, seat_number_out = Some s\<rparr>"
    and d': "d' = decrement_available (p_train_id a) now d1"
    by (rule book_seat_success)
  obtain name age gender where
    args: "p_passenger_name a = Some name" "p_passenger_age a = Some age"
      "p_passenger_gender a = Some gender"
    and cut: "list_all (\<lambda>c. c = CHR '' '') (drop 100 name)"
      "list_all (\<lambda>c. c = CHR '' '') (drop 10 gender)"
    and fk: "\<And>t. p_train_id a = Some t \<Longrightarrow> t \<in> t_id ` set (trains d)"
    and d1: "d1 = d\<lparr>bookings := bookings d @
       [\<lparr>b_id = new_id, user_id = p_user_id a, train_id = p_train_id a,
         seat_number = s, booking_status = ''confirmed'',
         passenger_name = take 100 name, passenger_age = age,
         passenger_gender = take 10 gender, booking_date = now, b_created_at = now\<rparr>]\<rparr>"
    by (rule insert_booking_Inr [OF ins]) blast
  from fk assms(3) have "select_train d (Some t) \<noteq> None"
    by (simp add: select_train_None_iff)
  then obtain tr where tr: "select_train d (Some t) = Some tr" by blast
  with avail assms(3) have pos: "0 < available_seats tr" by simp
  have td1: "trains d1 = trains d" by (simp add: d1)
  have sel': "select_train d' (Some t) =
        Some (tr\<lparr>available_seats := available_seats tr - 1, updated_at := now\<rparr>)"
    using select_train_decrement [OF td1, of t now] tr assms(3) by (simp add: d')
  have s: "s = (if seats_of d (Some t) = [] then 1 else Max (set (seats_of d (Some t))) + 1)"
    using seat assms(3) by (simp add: next_seat_number_Inr)
  have bs: "bookings d' = bookings d @
        [\<lparr>b_id = new_id, user_id = p_user_id a, train_id = Some t, seat_number = s,
          booking_status = ''confirmed'', passenger_name = take 100 name,
          passenger_age = age, passenger_gender = take 10 gender,
          booking_date = now, b_created_at = now\<rparr>]"
    by (simp add: d' d1 decrement_available_def assms(3))
  have ts: "trains d' = map (\<lambda>x. if t_id x = t
                             then x\<lparr>available_seats := available_seats x - 1, updated_at := now\<rparr>
                             else x) (trains d)"
    by (simp add: d' d1 decrement_available_def assms(3))
  have us: "users d' = users d" by (simp add: d' d1 decrement_available_def)
  show ?thesis
    using tr pos args cut s bs sel' ts us r by simp
qed

theorem book_seat_success_postcondition_witness:
  "success (fst (book_seat asha 900 5 seed_db)) \<and> p_train_id asha = Some 2 \<and>
   fst (book_seat asha 900 5 seed_db) =
     \<lparr>success = True, message = ''Booking successful'',
      booking_id = Some 900, seat_number_out = Some 1\<rparr> \<and>
   bookings (snd (book_seat asha 900 5 seed_db)) =
     [\<lparr>b_id = 900, user_id = Some 71, train_id = Some 2, seat_number = 1,
       booking_status = ''confirmed'', passenger_name = ''Asha'',
       passenger_age = 30, passenger_gender = ''F'', booking_date = 5, b_created_at = 5\<rparr>] \<and>
   map_option available_seats (select_train (snd (book_seat asha 900 5 seed_db)) (Some 2)) =
     Some 79"
proof -
  have h1: "book_seat asha 900 5 seed_db =
      (fst (book_seat asha 900 5 seed_db), snd (book_seat asha 900 5 seed_db))" by simp
  have h2: "success (fst (book_seat asha 900 5 seed_db))" by (simp add: eval_defs)
  have h3: "p_train_id asha = Some 2" by (simp add: asha_def)
  have sel: "select_train seed_db (Some 2) = Some (seed_trains ! 1)"
    by (simp add: select_train_def seed_db_def seed_trains_def)
  have av: "available_seats (seed_trains ! 1) = 80" by (simp add: seed_trains_def)
  have args: "p_passenger_name asha = Some ''Asha''" "p_passenger_age asha = Some 30"
    "p_passenger_gender asha = Some ''F''" "p_user_id asha = Some 71"
    by (simp_all add: asha_def)
  have seats: "seats_of seed_db (Some 2) = []" "bookings seed_db = []"
    by (simp_all add: seats_of_def seed_db_def)
  from book_seat_success_postcondition [OF h1 h2 h3]
  show ?thesis using h2 h3 sel av args seats by auto
qed

section \<open>The allocator's failures\<close>

text \<open>
  The function of \<^verbatim>\<open>20250704034457_graceful_firefly.sql\<close> on a train without a free seat,
  and on a train id that is not \<^verbatim>\<open>NULL\<close> and references no train: it has no existence
  check, the insert breaks the foreign key at the latest, and the handler's object is
  returned, which never carries the message \<^verbatim>\<open>Train not found\<close>.
\<close>

lemma book_seat_no_seats:
  assumes "select_train d (p_train_id a) = Some tr" and "available_seats tr \<le> 0"
  shows "book_seat a new_id now d =
     (\<lparr>success = False, message = ''No seats available'',
       booking_id = None, seat_number_out = None\<rparr>, d)"
  using assms by (simp add: book_seat_def book_seat_body_def)

lemma book_seat_missing_train:
  assumes "p_train_id a = Some t" and "t \<notin> t_id ` set (trains d)"
  shows "\<exists>e. book_seat a new_id now d =
     (\<lparr>success = False, message = ''Booking failed: '' @ sqlerrm e,
       booking_id = None, seat_number_out = None\<rparr>, d)"
    and "message (fst (book_seat a new_id now d)) \<noteq> ''Train not found''"
proof -
  from assms have none: "select_train d (p_train_id a) = None"
    by (simp add: select_train_None_iff)
  have "\<exists>e. book_seat_body a new_id now d = Inl e"
  proof (cases "next_seat_number d (p_train_id a)")
    case (Inl e)
    then show ?thesis by (simp add: book_seat_no_train [OF none])
  next
    case (Inr s)
    from assms obtain e where "insert_booking a s new_id now d = Inl e"
      using insert_booking_missing_train [of a t d s new_id now] by blast
    with Inr show ?thesis by (simp add: book_seat_no_train [OF none])
  qed
  then obtain e where e: "book_seat a new_id now d =
     (\<lparr>success = False, message = ''Booking failed: '' @ sqlerrm e,
       booking_id = None, seat_number_out = None\<rparr>, d)"
    using book_seat_raise by blast
  then show "\<exists>e. book_seat a new_id now d =
     (\<lparr>success = False, message = ''Booking failed: '' @ sqlerrm e,
       booking_id = None, seat_number_out = None\<rparr>, d)"
    by blast
  from e show "message (fst (book_seat a new_id now d)) \<noteq> ''Train not found''"
    by simp
qed

text \<open>
  The redefinition of the schema-update migration does what the older text misses: a
  train id that selects no row, \<^verbatim>\<open>NULL\<close> included, is answered with \<^verbatim>\<open>Train not found\<close>,
  a train without a free seat with \<^verbatim>\<open>No seats available\<close>, both with the database as
  it was; and on a train that exists it is the older function.
\<close>

lemma book_seat_redefined_not_found:
  assumes "select_train d (p_train_id a) = None"
  shows "book_seat_redefined a new_id now d =
     (\<lparr>success = False, message = ''Train not found'',
       booking_id = None, seat_number_out = None\<rparr>, d)"
  using assms by (simp add: book_seat_redefined_def book_seat_redefined_body_def)

lemma book_seat_redefined_no_seats:
  assumes "select_train d (p_train_id a) = Some tr" and "available_seats tr \<le> 0"
  shows "book_seat_redefined a new_id now d =
     (\<lparr>success = False, message = ''No seats available'',
       booking_id = None, seat_number_out = None\<rparr>, d)"
  using assms by (simp add: book_seat_redefined_def book_seat_redefined_body_def)

lemma book_seat_redefined_found:
  assumes "select_train d (p_train_id a) = Some tr"
  shows "book_seat_redefined a new_id now d = book_seat a new_id now d"
  using assms
  by (simp add: book_seat_redefined_def book_seat_redefined_body_def book_seat_def
      book_seat_body_def)

text \<open>
  With a \<^verbatim>\<open>NULL\<close> train id the older function selects no train, skips the test, and
  inserts a booking without a train; the redefinition answers \<^verbatim>\<open>Train not found\<close>.
\<close>

lemma book_seat_null_train:
  "fst (book_seat (asha\<lparr>p_train_id := None\<rparr>) 900 5 seed_db) =
     \<lparr>success = True, message = ''Booking successful'',
      booking_id = Some 900, seat_number_out = Some 1\<rparr> \<and>
   map train_id (bookings (snd (book_seat (asha\<lparr>p_train_id := None\<rparr>) 900 5 seed_db))) =
     [None] \<and>
   book_seat_redefined (asha\<lparr>p_train_id := None\<rparr>) 900 5 seed_db =
     (\<lparr>success = False, message = ''Train not found'',
       booking_id = None, seat_number_out = None\<rparr>, seed_db)"
  by (simp add: eval_defs book_seat_redefined_def book_seat_redefined_body_def)

text \<open>
  C4. On the seeded database, where no train has the id 9, the function of
  \<^verbatim>\<open>20250704034457_graceful_firefly.sql\<close> answers a call for train 9 with the handler's
  object for the foreign-key violation, where the claim has a not-found result; the
  redefinition answers the same call with \<^verbatim>\<open>Train not found\<close>.
\<close>

theorem book_seat_missing_train_divergence:
  \<open>9 \<notin> t_id ` set (trains seed_db) \<and>
   book_seat (asha\<lparr>p_train_id := Some 9\<rparr>) 900 5 seed_db =
     (\<lparr>success = False,
       message = ''Booking failed: insert or update on table "bookings" violates foreign key constraint "bookings_train_id_fkey"'',
       booking_id = None, seat_number_out = None\<rparr>, seed_db) \<and>
   book_seat_redefined (asha\<lparr>p_train_id := Some 9\<rparr>) 900 5 seed_db =
     (\<lparr>success = False, message = ''Train not found'',
       booking_id = None, seat_number_out = None\<rparr>, seed_db)\<close>
proof -
  have i: "9 \<notin> t_id ` set (trains seed_db)"
    by (simp add: seed_db_def seed_trains_def)
  have m: \<open>book_seat (asha\<lparr>p_train_id := Some 9\<rparr>) 900 5 seed_db =
     (\<lparr>success = False,
       message = ''Booking failed: insert or update on table "bookings" violates foreign key constraint "bookings_train_id_fkey"'',
       booking_id = None, seat_number_out = None\<rparr>, seed_db)\<close>
    by (simp add: eval_defs)
  have "select_train seed_db (p_train_id (asha\<lparr>p_train_id := Some 9\<rparr>)) = None"
    by (simp add: select_train_def seed_db_def seed_trains_def)
  then have n: "book_seat_redefined (asha\<lparr>p_train_id := Some 9\<rparr>) 900 5 seed_db =
     (\<lparr>success = False, message = ''Train not found'',
       booking_id = None, seat_number_out = None\<rparr>, seed_db)"
    by (rule book_seat_redefined_not_found)
  from i m n show ?thesis by simp
qed

section \<open>Atomicity of the allocator\<close>

lemma book_seat_block_no_conditions:
  "book_seat_block no_conditions a new_id now d =
     (case book_seat_body a new_id now d of Inl e \<Rightarrow> Inl (e, d) | Inr r \<Rightarrow> Inr r)"
  by (simp add: book_seat_block_def book_seat_body_def no_conditions_def Let_def
      split: sum.splits)

lemma trapped_by_data:
  "book_seat_body a new_id now d = Inl e \<Longrightarrow> trapped_by_others e"
  by (auto simp: book_seat_body_def Let_def next_seat_number_def insert_booking_def
      varchar_assign_def trapped_by_others_def split: sum.splits option.splits if_splits)

lemma book_seat_under_no_conditions:
  "book_seat_under no_conditions a new_id now d =
     (Inr (fst (book_seat a new_id now d)), snd (book_seat a new_id now d))"
proof (cases "book_seat_body a new_id now d")
  case (Inl e)
  with trapped_by_data [OF Inl] show ?thesis
    by (simp add: book_seat_under_def book_seat_block_no_conditions book_seat_def)
next
  case (Inr r)
  then show ?thesis
    by (cases r) (simp add: book_seat_under_def book_seat_block_no_conditions book_seat_def)
qed

lemma book_seat_under_unchanged:
  "snd (book_seat_under env a new_id now d) = d \<or>
   (\<exists>r. fst (book_seat_under env a new_id now d) = Inr r \<and> success r)"
  by (auto simp: book_seat_under_def book_seat_block_def Let_def
      split: sum.splits option.splits if_splits prod.splits)

text \<open>
  C5, as the claim states it, fails on "never raises": when the statement timeout
  strikes in the update, after the row has been inserted, \<^verbatim>\<open>WHEN OTHERS\<close> does not trap
  the cancellation and it leaves the function instead of a failure object.
\<close>

theorem book_seat_cancellation_counterexample:
  "book_seat_block timeout_in_update asha 900 5 seed_db =
     Inl (QueryCanceled ''canceling statement due to statement timeout'',
          seed_db\<lparr>bookings :=
            [\<lparr>b_id = 900, user_id = Some 71, train_id = Some 2, seat_number = 1,
              booking_status = ''confirmed'', passenger_name = ''Asha'', passenger_age = 30,
              passenger_gender = ''F'', booking_date = 5, b_created_at = 5\<rparr>]\<rparr>) \<and>
   book_seat_under timeout_in_update asha 900 5 seed_db =
     (Inl (QueryCanceled ''canceling statement due to statement timeout''), seed_db)"
  by (simp add: book_seat_under_def book_seat_block_def timeout_in_update_def
      trapped_by_others_def eval_defs)

text \<open>
  C5, amended. Whatever raises the first condition \<open>e\<close> of a call, be it the server in
  the lock, the seat-number statement, the insert or the update, or the data in the
  seat-number statement or the insert, the database after the call is exactly the one
  before it: no row is inserted and no counter decremented, also when the update raises
  after the row was inserted. If \<open>e\<close> is not the cancellation of the query (nor a failed
  assertion), the function returns the failure object whose message is
  \<^verbatim>\<open>Booking failed: \<close> followed by the text of \<open>e\<close>; otherwise \<open>e\<close> is raised to the
  caller.
\<close>

theorem book_seat_under_atomic:
  assumes "env LockTrain = Some e \<or>
     (env LockTrain = None \<and>
      (case select_train d (p_train_id a) of None \<Rightarrow> True | Some tr \<Rightarrow> 0 < available_seats tr) \<and>
      (env NextSeat = Some e \<or>
       (env NextSeat = None \<and> next_seat_number d (p_train_id a) = Inl e) \<or>
       (\<exists>s. env NextSeat = None \<and> next_seat_number d (p_train_id a) = Inr s \<and>
          (env InsertBooking = Some e \<or>
           (env InsertBooking = None \<and> insert_booking a s new_id now d = Inl e) \<or>
           (\<exists>d1. env InsertBooking = None \<and> insert_booking a s new_id now d = Inr d1 \<and>
                 env UpdateTrain = Some e)))))"
  shows "book_seat_under env a new_id now d =
     (if trapped_by_others e
      then Inr \<lparr>success = False, message = ''Booking failed: '' @ sqlerrm e,
                booking_id = None, seat_number_out = None\<rparr>
      else Inl e, d)"
proof -
  from assms have "\<exists>dw. book_seat_block env a new_id now d = Inl (e, dw)"
  proof
    assume "env LockTrain = Some e"
    then show ?thesis by (simp add: book_seat_block_def)
  next
    assume h: "env LockTrain = None \<and>
      (case select_train d (p_train_id a) of None \<Rightarrow> True | Some tr \<Rightarrow> 0 < available_seats tr) \<and>
      (env NextSeat = Some e \<or>
       (env NextSeat = None \<and> next_seat_number d (p_train_id a) = Inl e) \<or>
       (\<exists>s. env NextSeat = None \<and> next_seat_number d (p_train_id a) = Inr s \<and>
          (env InsertBooking = Some e \<or>
           (env InsertBooking = None \<and> insert_booking a s new_id now d = Inl e) \<or>
           (\<exists>d1. env InsertBooking = None \<and> insert_booking a s new_id now d = Inr d1 \<and>
                 env UpdateTrain = Some e))))"
    then have test: "\<not> (case select_train d (p_train_id a) of None \<Rightarrow> False
           | Some r \<Rightarrow> available_seats r \<le> 0)"
      by (simp split: option.splits)
    from h test show ?thesis
      by (auto simp: book_seat_block_def Let_def)
  qed
  then show ?thesis by (auto simp: book_seat_under_def)
qed

theorem book_seat_under_atomic_witness:
  "deadlock_in_update LockTrain = None \<and> deadlock_in_update NextSeat = None \<and>
   deadlock_in_update InsertBooking = None \<and>
   deadlock_in_update UpdateTrain = Some (OtherCondition ''deadlock detected'') \<and>
   next_seat_number seed_db (p_train_id asha) = Inr 1 \<and>
   map_option (map b_id \<circ> bookings) (case insert_booking asha 1 900 5 seed_db of
      Inl e \<Rightarrow> None | Inr d1 \<Rightarrow> Some d1) = Some [900] \<and>
   bookings seed_db = [] \<and>
   book_seat_under deadlock_in_update asha 900 5 seed_db =
     (Inr \<lparr>success = False, message = ''Booking failed: deadlock detected'',
           booking_id = None, seat_number_out = None\<rparr>, seed_db)"
proof -
  let ?e = "OtherCondition ''deadlock detected''"
  have env: "deadlock_in_update LockTrain = None" "deadlock_in_update NextSeat = None"
    "deadlock_in_update InsertBooking = None" "deadlock_in_update UpdateTrain = Some ?e"
    by (simp_all add: deadlock_in_update_def)
  have test: "case select_train seed_db (p_train_id asha) of
      None \<Rightarrow> True | Some tr \<Rightarrow> 0 < available_seats tr"
    by (simp add: eval_defs)
  have seat: "next_seat_number seed_db (p_train_id asha) = Inr 1"
    by (simp add: eval_defs)
  obtain d1 where ins: "insert_booking asha 1 900 5 seed_db = Inr d1"
    and row: "map b_id (bookings d1) = [900]"
    by (simp add: eval_defs)
  have none: "bookings seed_db = []" by (simp add: seed_db_def)
  from env test seat ins have h: "deadlock_in_update LockTrain = Some ?e \<or>
     (deadlock_in_update LockTrain = None \<and>
      (case select_train seed_db (p_train_id asha) of
         None \<Rightarrow> True | Some tr \<Rightarrow> 0 < available_seats tr) \<and>
      (deadlock_in_update NextSeat = Some ?e \<or>
       (deadlock_in_update NextSeat = None \<and>
        next_seat_number seed_db (p_train_id asha) = Inl ?e) \<or>
       (\<exists>s. deadlock_in_update NextSeat = None \<and>
          next_seat_number seed_db (p_train_id asha) = Inr s \<and>
          (deadlock_in_update InsertBooking = Some ?e \<or>
           (deadlock_in_update InsertBooking = None \<and>
            insert_booking asha s 900 5 seed_db = Inl ?e) \<or>
           (\<exists>d1. deadlock_in_update InsertBooking = None \<and>
                 insert_booking asha s 900 5 seed_db = Inr d1 \<and>
                 deadlock_in_update UpdateTrain = Some ?e)))))"
    by blast
  from book_seat_under_atomic [OF h] env seat ins row none
  show ?thesis by (simp add: trapped_by_others_def sqlerrm_def)
qed

section \<open>The invariant of the counters\<close>

lemma counters_consistent_iff:
  "counters_consistent d \<longleftrightarrow>
     distinct (map t_id (trains d)) \<and>
     (\<forall>r \<in> set (trains d). distinct (seats_of d (Some (t_id r))) \<and> 0 \<le> available_seats r \<and>
        available_seats r + int (length (seats_of d (Some (t_id r)))) \<le> total_seats r)"
  by (simp add: counters_consistent_def list_all_iff)

lemma select_train_unique:
  assumes "distinct (map t_id (trains d))" "select_train d (Some t) = Some tr"
    "r \<in> set (trains d)" "t_id r = t"
  shows "r = tr"
proof -
  from assms(2) have "t_id tr = t" "tr \<in> set (trains d)"
    by (auto simp: select_train_def dest: find_SomeD)
  moreover from assms(1) have "inj_on t_id (set (trains d))" by (simp add: distinct_map)
  ultimately show ?thesis using assms(3,4) by (auto dest: inj_onD)
qed

lemma book_seat_consistent:
  assumes "counters_consistent d"
  shows "counters_consistent (snd (book_seat a i n d))"
proof (cases "success (fst (book_seat a i n d))")
  case False
  then have "snd (book_seat a i n d) = d"
    using book_seat_failure [of a i n d "fst (book_seat a i n d)" "snd (book_seat a i n d)"] by simp
  with assms show ?thesis by simp
next
  case True
  have pc: "book_seat a i n d = (fst (book_seat a i n d), snd (book_seat a i n d))" by simp
  obtain s d1 where
    avail: "case select_train d (p_train_id a) of None \<Rightarrow> True | Some tr \<Rightarrow> 0 < available_seats tr"
    and seat: "next_seat_number d (p_train_id a) = Inr s"
    and ins: "insert_booking a s i n d = Inr d1"
    and d': "snd (book_seat a i n d) = decrement_available (p_train_id a) n d1"
    by (rule book_seat_success [OF pc True]) blast
  obtain name age gender where
    fk: "\<And>t. p_train_id a = Some t \<Longrightarrow> t \<in> t_id ` set (trains d)"
    and d1: "d1 = d\<lparr>bookings := bookings d @
       [\<lparr>b_id = i, user_id = p_user_id a, train_id = p_train_id a,
         seat_number = s, booking_status = ''confirmed'',
         passenger_name = take 100 name, passenger_age = age,
         passenger_gender = take 10 gender, booking_date = n, b_created_at = n\<rparr>]\<rparr>"
    by (rule insert_booking_Inr [OF ins]) blast
  show ?thesis
  proof (cases "p_train_id a")
    case None
    have "trains (snd (book_seat a i n d)) = trains d"
      by (simp add: d' d1 None decrement_available_def)
    moreover have "\<And>t. seats_of (snd (book_seat a i n d)) (Some t) = seats_of d (Some t)"
      by (simp add: d' d1 None decrement_available_def seats_of_def)
    ultimately show ?thesis using assms by (simp add: counters_consistent_iff)
  next
    case (Some t)
    from fk Some obtain tr where tr: "select_train d (Some t) = Some tr"
      by (cases "select_train d (Some t)") (auto simp: select_train_None_iff)
    with avail Some have pos: "0 < available_seats tr" by simp
    from assms have dist: "distinct (map t_id (trains d))" by (simp add: counters_consistent_iff)
    have seats_t: "seats_of (snd (book_seat a i n d)) (Some t) = seats_of d (Some t) @ [s]"
      by (simp add: d' d1 Some decrement_available_def seats_of_def)
    have seats_o: "\<And>u. u \<noteq> t \<Longrightarrow> seats_of (snd (book_seat a i n d)) (Some u) = seats_of d (Some u)"
      by (simp add: d' d1 Some decrement_available_def seats_of_def)
    have fresh: "s \<notin> set (seats_of d (Some t))"
      using next_seat_number_above [of d "Some t" s s] seat Some by auto
    define f :: "train \<Rightarrow> train" where "f = (\<lambda>r. if t_id r = t
                 then r\<lparr>available_seats := available_seats r - 1, updated_at := n\<rparr> else r)"
    have ts: "trains (snd (book_seat a i n d)) = map f (trains d)"
      by (simp add: d' d1 Some decrement_available_def f_def)
    have fid: "\<And>r. t_id (f r) = t_id r" by (simp add: f_def)
    then have ids: "map t_id (map f (trains d)) = map t_id (trains d)" by simp
    have "\<forall>r\<in>set (trains d).
        distinct (seats_of (snd (book_seat a i n d)) (Some (t_id (f r)))) \<and>
        0 \<le> available_seats (f r) \<and>
        available_seats (f r) + int (length (seats_of (snd (book_seat a i n d)) (Some (t_id (f r)))))
          \<le> total_seats (f r)"
    proof
      fix r assume r: "r \<in> set (trains d)"
      with assms have inv: "distinct (seats_of d (Some (t_id r)))" "0 \<le> available_seats r"
        "available_seats r + int (length (seats_of d (Some (t_id r)))) \<le> total_seats r"
        by (auto simp: counters_consistent_iff)
      show "distinct (seats_of (snd (book_seat a i n d)) (Some (t_id (f r)))) \<and>
        0 \<le> available_seats (f r) \<and>
        available_seats (f r) + int (length (seats_of (snd (book_seat a i n d)) (Some (t_id (f r)))))
          \<le> total_seats (f r)"
      proof (cases "t_id r = t")
        case True
        with select_train_unique [OF dist tr r] have "r = tr" by simp
        with pos have "0 < available_seats r" by simp
        with True inv fresh show ?thesis by (simp add: seats_t f_def)
      next
        case False
        with inv show ?thesis by (simp add: seats_o f_def)
      qed
    qed
    then have "\<forall>r\<in>set (map f (trains d)).
        distinct (seats_of (snd (book_seat a i n d)) (Some (t_id r))) \<and>
        0 \<le> available_seats r \<and>
        available_seats r + int (length (seats_of (snd (book_seat a i n d)) (Some (t_id r))))
          \<le> total_seats r"
      by auto
    moreover have "distinct (map t_id (map f (trains d)))"
      using dist by (simp only: ids)
    ultimately show ?thesis
      unfolding counters_consistent_iff ts by blast
  qed
qed

lemma cancel_booking_cases:
  obtains (unchanged) "snd (cancel_booking bid uid env d) = d"
  | (deleted) booking where
      "filter (\<lambda>b. b_id b = bid \<and> user_id b = Some uid) (bookings d) = [booking]"
      "fetch_fault env = NoFault" "delete_fault env = NoFault"
      "snd (cancel_booking bid uid env d) =
         d\<lparr>bookings := filter (\<lambda>b. \<not> (b_id b = bid \<and> user_id b = Some uid)) (bookings d)\<rparr>"
proof -
  let ?mine = "\<lambda>b. b_id b = bid \<and> user_id b = Some uid"
  let ?d1 = "d\<lparr>bookings := filter (\<lambda>b. \<not> ?mine b) (bookings d)\<rparr>"
  show thesis
  proof (cases "fetch_fault env = NoFault \<and> delete_fault env = NoFault \<and>
                (\<exists>booking. filter ?mine (bookings d) = [booking])")
    case False
    then have "snd (cancel_booking bid uid env d) = d"
      by (auto simp: cancel_booking_def Let_def split: fault.splits list.splits)
    then show thesis by (rule unchanged)
  next
    case True
    then obtain booking where b: "filter ?mine (bookings d) = [booking]" by blast
    with True have "snd (cancel_booking bid uid env d) = ?d1"
      by (auto simp: cancel_booking_def Let_def split: fault.splits)
    with deleted [OF b] True show thesis by blast
  qed
qed

lemma filter_swap: "filter Q (filter P xs) = filter P (filter Q xs)"
  by (induction xs) auto

lemma length_filter_split:
  "length (filter Q xs) =
     length (filter Q (filter P xs)) + length (filter Q (filter (\<lambda>x. \<not> P x) xs))"
  by (induction xs) auto

lemma seats_of_delete_length:
  assumes "filter P (bookings d) = [booking]"
  shows "int (length (seats_of (d\<lparr>bookings := filter (\<lambda>b. \<not> P b) (bookings d)\<rparr>) tid)) =
         int (length (seats_of d tid)) - (if sql_eq (train_id booking) tid then 1 else 0)"
proof -
  have "length (filter (\<lambda>b. sql_eq (train_id b) tid) (bookings d)) =
     length (filter (\<lambda>b. sql_eq (train_id b) tid) [booking]) +
     length (filter (\<lambda>b. sql_eq (train_id b) tid) (filter (\<lambda>b. \<not> P b) (bookings d)))"
    using length_filter_split [of "\<lambda>b. sql_eq (train_id b) tid" "bookings d" P] assms by simp
  then show ?thesis by (simp add: seats_of_def)
qed

lemma seats_of_delete_distinct:
  assumes "distinct (seats_of d tid)"
  shows "distinct (seats_of (d\<lparr>bookings := filter (\<lambda>b. \<not> P b) (bookings d)\<rparr>) tid)"
proof -
  let ?Q = "\<lambda>b. sql_eq (train_id b) tid"
  have "seats_of (d\<lparr>bookings := filter (\<lambda>b. \<not> P b) (bookings d)\<rparr>) tid =
     map seat_number (filter ?Q (filter (\<lambda>b. \<not> P b) (bookings d)))"
    by (simp add: seats_of_def del: filter_filter)
  also have "\<dots> = map seat_number (filter (\<lambda>b. \<not> P b) (filter ?Q (bookings d)))"
    by (rule arg_cong [OF filter_swap])
  finally have "seats_of (d\<lparr>bookings := filter (\<lambda>b. \<not> P b) (bookings d)\<rparr>) tid =
     map seat_number (filter (\<lambda>b. \<not> P b) (filter ?Q (bookings d)))" .
  moreover have "distinct (map seat_number (filter (\<lambda>b. \<not> P b) (filter ?Q (bookings d))))"
    using assms unfolding seats_of_def by (rule distinct_map_filter)
  ultimately show ?thesis by (simp only:)
qed

lemma delete_consistent:
  assumes "counters_consistent d" "filter P (bookings d) = [booking]"
  shows "counters_consistent (d\<lparr>bookings := filter (\<lambda>b. \<not> P b) (bookings d)\<rparr>)"
proof -
  let ?d1 = "d\<lparr>bookings := filter (\<lambda>b. \<not> P b) (bookings d)\<rparr>"
  have "\<forall>r\<in>set (trains d). distinct (seats_of ?d1 (Some (t_id r))) \<and> 0 \<le> available_seats r \<and>
        available_seats r + int (length (seats_of ?d1 (Some (t_id r)))) \<le> total_seats r"
  proof
    fix r assume "r \<in> set (trains d)"
    with assms(1) have inv: "distinct (seats_of d (Some (t_id r)))" "0 \<le> available_seats r"
      "available_seats r + int (length (seats_of d (Some (t_id r)))) \<le> total_seats r"
      by (auto simp: counters_consistent_iff)
    from inv(1) have "distinct (seats_of ?d1 (Some (t_id r)))" by (rule seats_of_delete_distinct)
    moreover have "int (length (seats_of ?d1 (Some (t_id r)))) \<le> int (length (seats_of d (Some (t_id r))))"
      using seats_of_delete_length [OF assms(2), of "Some (t_id r)"] by simp
    ultimately show "distinct (seats_of ?d1 (Some (t_id r))) \<and> 0 \<le> available_seats r \<and>
        available_seats r + int (length (seats_of ?d1 (Some (t_id r)))) \<le> total_seats r"
      using inv by simp
  qed
  with assms(1) show ?thesis by (simp add: counters_consistent_iff)
qed

lemma cancel_booking_consistent:
  assumes "counters_consistent d"
  shows "counters_consistent (snd (cancel_booking bid uid env d))"
proof (cases bid uid env d rule: cancel_booking_cases)
  case unchanged
  with assms show ?thesis by simp
next
  case (deleted booking)
  with delete_consistent [OF assms deleted(1)] show ?thesis by simp
qed

lemma cancel_booking_trains: "trains (snd (cancel_booking bid uid env d)) = trains d"
  by (cases bid uid env d rule: cancel_booking_cases) simp_all

lemma step_consistent: "counters_consistent d \<Longrightarrow> counters_consistent (step d op)"
  by (cases op) (simp_all add: book_seat_consistent cancel_booking_consistent)

lemma run_consistent: "counters_consistent d \<Longrightarrow> counters_consistent (run d ops)"
  unfolding run_def by (induction ops arbitrary: d) (simp_all add: step_consistent)

lemma consistent_uniqueness: "counters_consistent d \<Longrightarrow> seat_uniqueness d"
  unfolding counters_consistent_iff seat_uniqueness_def list_all_iff
proof
  fix r assume h: "distinct (map t_id (trains d)) \<and>
     (\<forall>r \<in> set (trains d). distinct (seats_of d (Some (t_id r))) \<and> 0 \<le> available_seats r \<and>
        available_seats r + int (length (seats_of d (Some (t_id r)))) \<le> total_seats r)"
    and r: "r \<in> set (trains d)"
  then have "distinct (seats_of d (Some (t_id r)))" "0 \<le> available_seats r"
    "available_seats r + int (length (seats_of d (Some (t_id r)))) \<le> total_seats r"
    by auto
  then show "distinct (seats_of d (Some (t_id r))) \<and>
     int (length (seats_of d (Some (t_id r)))) \<le> total_seats r"
    by simp
qed

lemma consistent_bounds: "counters_consistent d \<Longrightarrow> seats_in_bounds d"
  unfolding counters_consistent_iff seats_in_bounds_def list_all_iff
proof
  fix r assume h: "distinct (map t_id (trains d)) \<and>
     (\<forall>r \<in> set (trains d). distinct (seats_of d (Some (t_id r))) \<and> 0 \<le> available_seats r \<and>
        available_seats r + int (length (seats_of d (Some (t_id r)))) \<le> total_seats r)"
    and r: "r \<in> set (trains d)"
  then have "0 \<le> available_seats r"
    "available_seats r + int (length (seats_of d (Some (t_id r)))) \<le> total_seats r"
    by auto
  then show "0 \<le> available_seats r \<and> available_seats r \<le> total_seats r"
    by simp
qed

lemma seed_consistent: "counters_consistent seed_db"
  by (simp add: counters_consistent_def seed_db_def seed_trains_def seats_of_def)

text \<open>
  C1. Start from a database whose counters are consistent (as the migration leaves it:
  every train with \<^verbatim>\<open>available_seats = total_seats\<close> and no booking). In every state
  that allocations and cancellations reach from it, with any arguments and any failures
  of the gateway's calls, the seat numbers of the bookings of each train are pairwise
  distinct and their number does not exceed the train's \<^verbatim>\<open>total_seats\<close>.
\<close>

theorem seat_uniqueness_reachable:
  assumes "counters_consistent d0"
  shows "seat_uniqueness (run d0 ops)"
  using assms by (intro consistent_uniqueness run_consistent)

theorem seat_uniqueness_reachable_witness:
  "counters_consistent seed_db \<and>
   seat_uniqueness (run seed_db [BookSeat asha 900 5, BookSeat asha 901 6, BookSeat asha 902 7,
                                 CancelBooking 901 71 no_faults, BookSeat asha 903 8]) \<and>
   seats_of (run seed_db [BookSeat asha 900 5, BookSeat asha 901 6, BookSeat asha 902 7,
                          CancelBooking 901 71 no_faults, BookSeat asha 903 8]) (Some 2) = [1, 3, 4]"
proof -
  have "seats_of (run seed_db [BookSeat asha 900 5, BookSeat asha 901 6, BookSeat asha 902 7,
                          CancelBooking 901 71 no_faults, BookSeat asha 903 8]) (Some 2) = [1, 3, 4]"
    by (simp add: run_defs eval_defs)
  with seat_uniqueness_reachable [OF seed_consistent] seed_consistent show ?thesis by blast
qed

lemma book_seat_decrements:
  assumes key: "distinct (map t_id (trains d))"
    and ok: "success (fst (book_seat a new_id now d))"
  shows "list_all (\<lambda>x. sql_eq (Some (t_id x)) (p_train_id a) \<longrightarrow> 0 < available_seats x)
           (trains d)"
    and "map available_seats (trains (snd (book_seat a new_id now d))) =
           map (\<lambda>x. if sql_eq (Some (t_id x)) (p_train_id a)
                     then available_seats x - 1 else available_seats x) (trains d)"
    and "map total_seats (trains (snd (book_seat a new_id now d))) = map total_seats (trains d)"
    and "map t_id (trains (snd (book_seat a new_id now d))) = map t_id (trains d)"
proof -
  have pc: "book_seat a new_id now d =
      (fst (book_seat a new_id now d), snd (book_seat a new_id now d))" by simp
  obtain s d1 where
    avail: "case select_train d (p_train_id a) of
              None \<Rightarrow> True | Some tr \<Rightarrow> 0 < available_seats tr"
    and ins: "insert_booking a s new_id now d = Inr d1"
    and d': "snd (book_seat a new_id now d) = decrement_available (p_train_id a) now d1"
    by (rule book_seat_success [OF pc ok]) blast
  have td1: "trains d1 = trains d" by (rule insert_booking_Inr [OF ins]) simp
  have ts: "trains (snd (book_seat a new_id now d)) =
     map (\<lambda>r. if sql_eq (Some (t_id r)) (p_train_id a)
               then r\<lparr>available_seats := available_seats r - 1, updated_at := now\<rparr> else r)
       (trains d)"
    by (simp add: d' decrement_available_def td1)
  show "map available_seats (trains (snd (book_seat a new_id now d))) =
           map (\<lambda>x. if sql_eq (Some (t_id x)) (p_train_id a)
                     then available_seats x - 1 else available_seats x) (trains d)"
    unfolding ts by (induction "trains d") auto
  show "map total_seats (trains (snd (book_seat a new_id now d))) = map total_seats (trains d)"
    unfolding ts by (induction "trains d") auto
  show "map t_id (trains (snd (book_seat a new_id now d))) = map t_id (trains d)"
    unfolding ts by (induction "trains d") auto
  show "list_all (\<lambda>x. sql_eq (Some (t_id x)) (p_train_id a) \<longrightarrow> 0 < available_seats x)
           (trains d)"
    unfolding list_all_iff
  proof (intro ballI impI)
    fix x assume x: "x \<in> set (trains d)" and m: "sql_eq (Some (t_id x)) (p_train_id a)"
    then obtain t where t: "p_train_id a = Some t" "t_id x = t"
      by (cases "p_train_id a") auto
    from x t have "select_train d (Some t) \<noteq> None" by (auto simp: select_train_None_iff)
    then obtain tr where tr: "select_train d (Some t) = Some tr" by blast
    with avail t have "0 < available_seats tr" by simp
    with select_train_unique [OF key tr x t(2)] show "0 < available_seats x" by simp
  qed
qed

text \<open>
  C7, amended. In every state that allocations and cancellations reach from a database
  with consistent counters, \<^verbatim>\<open>0 <= available_seats <= total_seats\<close> holds for every train.
  In such a state a successful allocation finds the counter of the booked train greater
  than zero and lowers it by exactly one, leaving every other counter and every capacity
  as it was; an allocation that fails changes nothing.
\<close>

theorem available_seats_bounds_reachable:
  assumes "counters_consistent d0"
  shows "seats_in_bounds (run d0 ops) \<and>
    (success (fst (book_seat a new_id now (run d0 ops))) \<longrightarrow>
       list_all (\<lambda>x. sql_eq (Some (t_id x)) (p_train_id a) \<longrightarrow> 0 < available_seats x)
         (trains (run d0 ops)) \<and>
       map available_seats (trains (snd (book_seat a new_id now (run d0 ops)))) =
         map (\<lambda>x. if sql_eq (Some (t_id x)) (p_train_id a)
                   then available_seats x - 1 else available_seats x) (trains (run d0 ops)) \<and>
       map total_seats (trains (snd (book_seat a new_id now (run d0 ops)))) =
         map total_seats (trains (run d0 ops)) \<and>
       map t_id (trains (snd (book_seat a new_id now (run d0 ops)))) =
         map t_id (trains (run d0 ops))) \<and>
    (\<not> success (fst (book_seat a new_id now (run d0 ops))) \<longrightarrow>
       snd (book_seat a new_id now (run d0 ops)) = run d0 ops)"
proof -
  from assms have c: "counters_consistent (run d0 ops)" by (rule run_consistent)
  then have key: "distinct (map t_id (trains (run d0 ops)))"
    by (simp add: counters_consistent_iff)
  have "seats_in_bounds (run d0 ops)" using c by (rule consistent_bounds)
  moreover have "\<not> success (fst (book_seat a new_id now (run d0 ops))) \<longrightarrow>
       snd (book_seat a new_id now (run d0 ops)) = run d0 ops"
    using book_seat_failure [of a new_id now "run d0 ops"
        "fst (book_seat a new_id now (run d0 ops))" "snd (book_seat a new_id now (run d0 ops))"]
    by simp
  ultimately show ?thesis
    using book_seat_decrements [OF key, of a new_id now] by blast
qed

theorem available_seats_bounds_reachable_witness:
  "counters_consistent seed_db \<and>
   map available_seats (trains (run seed_db [BookSeat asha 900 5, CancelBooking 900 71 no_faults]))
     = [100, 79, 120, 90, 100] \<and>
   seats_in_bounds (run seed_db [BookSeat asha 900 5, CancelBooking 900 71 no_faults]) \<and>
   success (fst (book_seat asha 901 6
      (run seed_db [BookSeat asha 900 5, CancelBooking 900 71 no_faults]))) \<and>
   map available_seats (trains (snd (book_seat asha 901 6
      (run seed_db [BookSeat asha 900 5, CancelBooking 900 71 no_faults]))))
     = [100, 78, 120, 90, 100] \<and>
   \<not> success (fst (book_seat (asha\<lparr>p_train_id := Some 9\<rparr>) 901 6
      (run seed_db [BookSeat asha 900 5, CancelBooking 900 71 no_faults]))) \<and>
   snd (book_seat (asha\<lparr>p_train_id := Some 9\<rparr>) 901 6
      (run seed_db [BookSeat asha 900 5, CancelBooking 900 71 no_faults])) =
     run seed_db [BookSeat asha 900 5, CancelBooking 900 71 no_faults]"
proof -
  let ?d = "run seed_db [BookSeat asha 900 5, CancelBooking 900 71 no_faults]"
  have av: "map available_seats (trains ?d) = [100, 79, 120, 90, 100]"
    by (simp add: run_defs eval_defs)
  have ok: "success (fst (book_seat asha 901 6 ?d))"
    by (simp add: run_defs eval_defs)
  have no: "\<not> success (fst (book_seat (asha\<lparr>p_train_id := Some 9\<rparr>) 901 6 ?d))"
    by (simp add: run_defs eval_defs)
  from available_seats_bounds_reachable [OF seed_consistent, of "[BookSeat asha 900 5,
      CancelBooking 900 71 no_faults]" asha 901 6] ok
  have b: "seats_in_bounds ?d"
    and tot: "map total_seats (trains (snd (book_seat asha 901 6 ?d))) =
         map total_seats (trains ?d)"
    by blast+
  have m': "map available_seats (trains (snd (book_seat asha 901 6 ?d))) =
      [100, 78, 120, 90, 100]"
    by (simp add: run_defs eval_defs)
  from available_seats_bounds_reachable [OF seed_consistent, of "[BookSeat asha 900 5,
      CancelBooking 900 71 no_faults]" "asha\<lparr>p_train_id := Some 9\<rparr>" 901 6] no
  have u: "snd (book_seat (asha\<lparr>p_train_id := Some 9\<rparr>) 901 6 ?d) = ?d" by blast
  from seed_consistent av b ok m' no u show ?thesis by blast
qed

text \<open>
  C7, as the claim states it, fails: \<^verbatim>\<open>PUT /trains/:id\<close> writes whatever counters the
  request body names, so a writer other than the allocator sets \<^verbatim>\<open>available_seats\<close>,
  here to a negative value.
\<close>

theorem update_train_counterexample:
  "counters_consistent seed_db \<and>
   status (fst (update_train 2 \<lparr>u_total_seats = None, u_available_seats = Some (- 1)\<rparr>
                  NoFault seed_db)) = 200 \<and>
   map available_seats (trains (snd (update_train 2
       \<lparr>u_total_seats = None, u_available_seats = Some (- 1)\<rparr> NoFault seed_db))) =
     [100, - 1, 120, 90, 100] \<and>
   \<not> seats_in_bounds (snd (update_train 2
       \<lparr>u_total_seats = None, u_available_seats = Some (- 1)\<rparr> NoFault seed_db))"
  by (simp add: seed_consistent)
     (simp add: update_train_def in_integer_range_def apply_updates_def seats_in_bounds_def
        seed_db_def seed_trains_def)

section \<open>Which seat numbers are issued\<close>





section \<open>Cancellation\<close>

text \<open>
  A booking that does not exist or belongs to another user is not found and nothing
  changes. When the fetch and the delete of the caller's own booking go through, the
  booking is deleted and is not found when it is queried again; the answer is 500, or
  200 when an update error was logged; no row of \<^verbatim>\<open>trains\<close> is ever changed.
\<close>

lemma cancel_booking_not_found:
  assumes "fetch_fault env \<noteq> Throws"
    and "filter (\<lambda>b. b_id b = bid \<and> user_id b = Some uid) (bookings d) = []"
  shows "cancel_booking bid uid env d = (Response 404 (ErrorBody ''Booking not found''), d)"
  using assms by (simp add: cancel_booking_def split: fault.splits)

lemma cancel_booking_deletes:
  assumes one: "filter (\<lambda>b. b_id b = bid \<and> user_id b = Some uid) (bookings d) = [booking]"
    and f: "fetch_fault env = NoFault" "delete_fault env = NoFault"
  shows "fst (cancel_booking bid uid env d) =
           (if update_fault env = ReturnsError
            then Response 200 (MessageBody ''Booking cancelled successfully'')
            else Response 500 (ErrorBody ''Failed to cancel booking''))"
    and "bookings (snd (cancel_booking bid uid env d)) =
           filter (\<lambda>b. \<not> (b_id b = bid \<and> user_id b = Some uid)) (bookings d)"
    and "trains (snd (cancel_booking bid uid env d)) = trains d"
    and "get_booking bid uid NoFault (snd (cancel_booking bid uid env d)) =
           Inl (Response 404 (ErrorBody ''Booking not found''))"
proof -
  let ?d1 = "d\<lparr>bookings := filter (\<lambda>b. \<not> (b_id b = bid \<and> user_id b = Some uid)) (bookings d)\<rparr>"
  have res: "cancel_booking bid uid env d =
      (if update_fault env = ReturnsError
       then Response 200 (MessageBody ''Booking cancelled successfully'')
       else Response 500 (ErrorBody ''Failed to cancel booking''), ?d1)"
    using one f by (cases "update_fault env") (simp_all add: cancel_booking_def)
  show "fst (cancel_booking bid uid env d) =
           (if update_fault env = ReturnsError
            then Response 200 (MessageBody ''Booking cancelled successfully'')
            else Response 500 (ErrorBody ''Failed to cancel booking''))"
    by (simp add: res)
  show "bookings (snd (cancel_booking bid uid env d)) =
           filter (\<lambda>b. \<not> (b_id b = bid \<and> user_id b = Some uid)) (bookings d)"
    by (simp add: res)
  show "trains (snd (cancel_booking bid uid env d)) = trains d"
    by (simp add: res)
  have "filter (\<lambda>b. b_id b = bid \<and> user_id b = Some uid) (bookings ?d1) = []"
    by (simp add: filter_empty_conv)
  then show "get_booking bid uid NoFault (snd (cancel_booking bid uid env d)) =
           Inl (Response 404 (ErrorBody ''Booking not found''))"
    by (simp add: res get_booking_def)
qed

text \<open>
  C6. The delete and the increment are two calls, and the second is never applied. On
  the database with three bookings on the second train (77 seats free), cancelling
  booking 902 deletes the booking and leaves the train with 77 seats free: the third
  call throws and the answer is 500; when the update returns an error instead, it is
  only logged and the answer is 200 with the success message.
\<close>

theorem cancel_booking_update_not_applied:
  "map b_id (bookings three_booked) = [900, 901, 902] \<and>
   map_option available_seats (select_train three_booked (Some 2)) = Some 77 \<and>
   fst (cancel_booking 902 71 (no_faults\<lparr>update_fault := ReturnsError\<rparr>) three_booked) =
     Response 200 (MessageBody ''Booking cancelled successfully'') \<and>
   map b_id (bookings (snd (cancel_booking 902 71 (no_faults\<lparr>update_fault := ReturnsError\<rparr>)
                              three_booked))) = [900, 901] \<and>
   map_option available_seats (select_train
       (snd (cancel_booking 902 71 (no_faults\<lparr>update_fault := ReturnsError\<rparr>) three_booked))
       (Some 2)) = Some 77 \<and>
   fst (cancel_booking 902 71 (no_faults\<lparr>update_fault := Throws\<rparr>) three_booked) =
     Response 500 (ErrorBody ''Failed to cancel booking'') \<and>
   snd (cancel_booking 902 71 (no_faults\<lparr>update_fault := Throws\<rparr>) three_booked) =
     snd (cancel_booking 902 71 (no_faults\<lparr>update_fault := ReturnsError\<rparr>) three_booked) \<and>
   fst (cancel_booking 902 71 no_faults three_booked) =
     Response 500 (ErrorBody ''Failed to cancel booking'') \<and>
   snd (cancel_booking 902 71 no_faults three_booked) =
     snd (cancel_booking 902 71 (no_faults\<lparr>update_fault := ReturnsError\<rparr>) three_booked)"
  by (simp add: run_defs eval_defs)

section \<open>The validation guard of \<^verbatim>\<open>POST /bookings\<close>\<close>

text \<open>
  C10. When any of \<^verbatim>\<open>train_id\<close>, \<^verbatim>\<open>passenger_name\<close>, \<^verbatim>\<open>passenger_age\<close> and
  \<^verbatim>\<open>passenger_gender\<close> is missing or falsy, the handler answers 400 with the error
  \<^verbatim>\<open>All passenger details are required\<close> and the database is untouched, whatever the
  remote call would have done; an age of 0 is such a case.
\<close>

theorem post_booking_requires_all_fields:
  "(\<not> truthy (req_train_id req) \<or> \<not> truthy (req_passenger_name req) \<or>
    \<not> truthy (req_passenger_age req) \<or> \<not> truthy (req_passenger_gender req) \<longrightarrow>
      post_booking coerce f new_id now req uid d =
        (Response 400 (ErrorBody ''All passenger details are required''), d)) \<and>
   (req_passenger_age req = JNum 0 \<longrightarrow>
      post_booking coerce f new_id now req uid d =
        (Response 400 (ErrorBody ''All passenger details are required''), d))"
  by (auto simp: post_booking_def)

theorem post_booking_requires_all_fields_witness:
  "\<not> truthy (req_passenger_age \<lparr>req_train_id = JStr ''2'', req_passenger_name = JStr ''Asha'',
        req_passenger_age = JNum 0, req_passenger_gender = JStr ''F''\<rparr>) \<and>
   req_passenger_age \<lparr>req_train_id = JStr ''2'', req_passenger_name = JStr ''Asha'',
        req_passenger_age = JNum 0, req_passenger_gender = JStr ''F''\<rparr> = JNum 0 \<and>
   post_booking (\<lambda>req uid. Some asha) NoFault 900 5
     \<lparr>req_train_id = JStr ''2'', req_passenger_name = JStr ''Asha'',
      req_passenger_age = JNum 0, req_passenger_gender = JStr ''F''\<rparr> 71 seed_db =
     (Response 400 (ErrorBody ''All passenger details are required''), seed_db) \<and>
   status (fst (post_booking (\<lambda>req uid. Some asha) NoFault 900 5
     \<lparr>req_train_id = JStr ''2'', req_passenger_name = JStr ''Asha'',
      req_passenger_age = JNum 30, req_passenger_gender = JStr ''F''\<rparr> 71 seed_db)) = 201"
proof -
  let ?req = "\<lparr>req_train_id = JStr ''2'', req_passenger_name = JStr ''Asha'',
        req_passenger_age = JNum 0, req_passenger_gender = JStr ''F''\<rparr>"
  have h: "\<not> truthy (req_passenger_age ?req)" "req_passenger_age ?req = JNum 0" by simp_all
  have ok: "status (fst (post_booking (\<lambda>req uid. Some asha) NoFault 900 5
     \<lparr>req_train_id = JStr ''2'', req_passenger_name = JStr ''Asha'',
      req_passenger_age = JNum 30, req_passenger_gender = JStr ''F''\<rparr> 71 seed_db)) = 201"
    by (simp add: post_booking_def eval_defs)
  from post_booking_requires_all_fields
         [where req = ?req and coerce = "\<lambda>req uid. Some asha" and f = NoFault
            and new_id = 900 and now = 5 and uid = 71 and d = seed_db] h ok
  show ?thesis by blast
qed

section \<open>Search\<close>

lemma like_match_percent:
  "like_match (CHR ''%'' # q) x \<longleftrightarrow> (\<exists>y z. x = y @ z \<and> like_match q z)"
proof (induction x)
  case Nil
  then show ?case by simp
next
  case (Cons c x)
  have "like_match (CHR ''%'' # q) (c # x) \<longleftrightarrow>
        like_match q (c # x) \<or> like_match (CHR ''%'' # q) x"
    by simp
  also have "\<dots> \<longleftrightarrow> like_match q (c # x) \<or> (\<exists>y z. x = y @ z \<and> like_match q z)"
    using Cons.IH by simp
  also have "\<dots> \<longleftrightarrow> (\<exists>y z. c # x = y @ z \<and> like_match q z)"
  proof
    assume "like_match q (c # x) \<or> (\<exists>y z. x = y @ z \<and> like_match q z)"
    then show "\<exists>y z. c # x = y @ z \<and> like_match q z"
    proof
      assume "like_match q (c # x)"
      then have "c # x = [] @ (c # x) \<and> like_match q (c # x)" by simp
      then show ?thesis by blast
    next
      assume "\<exists>y z. x = y @ z \<and> like_match q z"
      then obtain y z where "x = y @ z" "like_match q z" by blast
      then have "c # x = (c # y) @ z \<and> like_match q z" by simp
      then show ?thesis by blast
    qed
  next
    assume "\<exists>y z. c # x = y @ z \<and> like_match q z"
    then obtain y z where yz: "c # x = y @ z" "like_match q z" by blast
    show "like_match q (c # x) \<or> (\<exists>y z. x = y @ z \<and> like_match q z)"
    proof (cases y)
      case Nil
      with yz show ?thesis by simp
    next
      case (Cons c' y')
      with yz have "x = y' @ z" by simp
      with yz(2) show ?thesis by blast
    qed
  qed
  finally show ?case .
qed

lemma like_match_plain:
  assumes "plain p"
  shows "like_match (p @ q) x \<longleftrightarrow> (\<exists>y. x = p @ y \<and> like_match q y)"
  using assms
proof (induction p arbitrary: x)
  case Nil
  then show ?case by simp
next
  case (Cons c p)
  then have c: "c \<noteq> CHR ''%''" "c \<noteq> CHR ''_''" "c \<noteq> CHR 0x5C" and p: "plain p"
    by (simp_all add: plain_def)
  show ?case
  proof (cases x)
    case Nil
    with c show ?thesis by simp
  next
    case (Cons c' x')
    with c Cons.IH [OF p, of x'] show ?thesis by auto
  qed
qed

lemma like_match_contains:
  assumes "plain p"
  shows "like_match (CHR ''%'' # p @ ''%'') x \<longleftrightarrow> sublist p x"
proof -
  have all: "\<And>w. like_match ''%'' w"
    by (simp only: like_match_percent) auto
  have "like_match (CHR ''%'' # p @ ''%'') x \<longleftrightarrow>
        (\<exists>y z. x = y @ z \<and> like_match (p @ ''%'') z)"
    by (rule like_match_percent)
  also have "\<dots> \<longleftrightarrow> (\<exists>y z. x = y @ z \<and> (\<exists>w. z = p @ w \<and> like_match ''%'' w))"
    by (simp only: like_match_plain [OF assms])
  also have "\<dots> \<longleftrightarrow> (\<exists>y w. x = y @ p @ w)"
    using all by auto
  also have "\<dots> \<longleftrightarrow> sublist p x"
    by (simp add: sublist_def)
  finally show ?thesis .
qed

lemma lower_char_special:
  assumes "m \<in> {CHR ''%'', CHR ''_'', CHR 0x5C, CHR ''*''}"
  shows "lower_char c = m \<longleftrightarrow> c = m"
proof (cases "map_of (zip ''ABCDEFGHIJKLMNOPQRSTUVWXYZ'' ''abcdefghijklmnopqrstuvwxyz'') c")
  case None
  then show ?thesis by (simp add: lower_char_def)
next
  case (Some l)
  then have "(c, l) \<in> set (zip ''ABCDEFGHIJKLMNOPQRSTUVWXYZ'' ''abcdefghijklmnopqrstuvwxyz'')"
    by (rule map_of_SomeD)
  then have "c \<in> set ''ABCDEFGHIJKLMNOPQRSTUVWXYZ''" "l \<in> set ''abcdefghijklmnopqrstuvwxyz''"
    by (auto dest: set_zip_leftD set_zip_rightD)
  moreover have "m \<notin> set ''ABCDEFGHIJKLMNOPQRSTUVWXYZ''" "m \<notin> set ''abcdefghijklmnopqrstuvwxyz''"
    using assms by auto
  ultimately have "l \<noteq> m" "c \<noteq> m" by auto
  with Some show ?thesis by (simp add: lower_char_def)
qed

lemma plain_lower: "plain s \<Longrightarrow> plain (lower s)"
  by (induction s) (simp_all add: plain_def lower_def lower_char_special)

lemma plain_star: "plain s \<Longrightarrow> map (\<lambda>c. if c = CHR ''*'' then CHR ''%'' else c) s = s"
  by (induction s) (simp_all add: plain_def)

lemma lower_percent: "lower_char CHR ''%'' = CHR ''%''"
  by (simp add: lower_char_special)

lemma ilike_contains:
  assumes "plain s"
  shows "ilike x (CHR ''%'' # s @ ''%'') \<longleftrightarrow> sublist (lower s) (lower x)"
proof -
  have "lower (map (\<lambda>c. if c = CHR ''*'' then CHR ''%'' else c) (''%'' @ s @ ''%'')) =
        CHR ''%'' # lower s @ ''%''"
    using plain_star [OF assms] by (simp add: lower_def lower_percent)
  then show ?thesis
    using like_match_contains [OF plain_lower [OF assms], of "lower x"]
    by (simp add: ilike_def)
qed

text \<open>
  C9, amended. For a search with a non-empty source and destination that the query
  answers, the response is 200 with exactly the trains whose \<^verbatim>\<open>available_seats\<close> is
  greater than 0, whose source and destination match the patterns \<^verbatim>\<open>%source%\<close> and
  \<^verbatim>\<open>%destination%\<close> under \<^verbatim>\<open>ILIKE\<close>, and whose date is the requested one when a date
  is given, in ascending order of \<^verbatim>\<open>departure_time\<close>. When the source (the destination)
  contains none of the characters \<^verbatim>\<open>%\<close>, \<^verbatim>\<open>_\<close>, backslash and \<^verbatim>\<open>*\<close>, every train
  returned has it as a substring of its source (destination), case ignored.
\<close>

theorem search_trains_result:
  assumes "s \<noteq> []" and "t \<noteq> []"
  shows "\<exists>found.
     search_trains (Some s) (Some t) date NoFault d =
       Response 200 (TrainsBody found (length found)) \<and>
     sorted (map departure_time found) \<and>
     set found = {r \<in> set (trains d).
        ilike (source r) (''%'' @ s @ ''%'') \<and> ilike (destination r) (''%'' @ t @ ''%'') \<and>
        0 < available_seats r \<and> (case date of None \<Rightarrow> True | Some j \<Rightarrow> journey_date r = j)} \<and>
     (\<forall>r \<in> set found. 0 < available_seats r) \<and>
     (plain s \<longrightarrow> (\<forall>r \<in> set found. sublist (lower s) (lower (source r)))) \<and>
     (plain t \<longrightarrow> (\<forall>r \<in> set found. sublist (lower t) (lower (destination r))))"
proof -
  define rows where "rows = filter (\<lambda>r. ilike (source r) (''%'' @ s @ ''%'')
                                     \<and> ilike (destination r) (''%'' @ t @ ''%'')
                                     \<and> available_seats r > 0
                                     \<and> (case date of None \<Rightarrow> True | Some j \<Rightarrow> journey_date r = j))
                                 (trains d)"
  define found where "found = sort_key departure_time rows"
  have res: "search_trains (Some s) (Some t) date NoFault d =
       Response 200 (TrainsBody found (length found))"
    using assms by (simp add: search_trains_def Let_def found_def rows_def)
  have srt: "sorted (map departure_time found)" by (simp add: found_def)
  have st: "set found = {r \<in> set (trains d).
        ilike (source r) (''%'' @ s @ ''%'') \<and> ilike (destination r) (''%'' @ t @ ''%'') \<and>
        0 < available_seats r \<and> (case date of None \<Rightarrow> True | Some j \<Rightarrow> journey_date r = j)}"
    by (auto simp: found_def rows_def)
  have av: "\<forall>r \<in> set found. 0 < available_seats r" using st by blast
  have ps: "plain s \<longrightarrow> (\<forall>r \<in> set found. sublist (lower s) (lower (source r)))"
    using st by (auto simp: ilike_contains)
  have pt: "plain t \<longrightarrow> (\<forall>r \<in> set found. sublist (lower t) (lower (destination r)))"
    using st by (auto simp: ilike_contains)
  from res srt st av ps pt show ?thesis by blast
qed

lemmas search_defs = search_trains_def ilike_def lower_def lower_char_def seed_db_def
  seed_trains_def

theorem search_trains_result_witness:
  "''del'' \<noteq> [] \<and> ''MUM'' \<noteq> [] \<and> plain ''del'' \<and> plain ''MUM'' \<and>
   search_trains (Some ''del'') (Some ''MUM'') None NoFault seed_db =
     Response 200 (TrainsBody [seed_trains ! 0] 1) \<and>
   (\<exists>found. search_trains (Some ''del'') (Some ''MUM'') None NoFault seed_db =
       Response 200 (TrainsBody found (length found)) \<and>
     sorted (map departure_time found) \<and>
     (\<forall>r \<in> set found. 0 < available_seats r) \<and>
     (\<forall>r \<in> set found. sublist (lower ''del'') (lower (source r))) \<and>
     (\<forall>r \<in> set found. sublist (lower ''MUM'') (lower (destination r))))"
proof -
  have h: "''del'' \<noteq> []" "''MUM'' \<noteq> []" by simp_all
  have pl: "plain ''del''" "plain ''MUM''" by (simp_all add: plain_def)
  have ev: "search_trains (Some ''del'') (Some ''MUM'') None NoFault seed_db =
     Response 200 (TrainsBody [seed_trains ! 0] 1)"
    by (simp add: search_defs)
  from search_trains_result [OF h, of None seed_db] pl
  have "\<exists>found. search_trains (Some ''del'') (Some ''MUM'') None NoFault seed_db =
       Response 200 (TrainsBody found (length found)) \<and>
     sorted (map departure_time found) \<and>
     (\<forall>r \<in> set found. 0 < available_seats r) \<and>
     (\<forall>r \<in> set found. sublist (lower ''del'') (lower (source r))) \<and>
     (\<forall>r \<in> set found. sublist (lower ''MUM'') (lower (destination r)))"
    by blast
  with h pl ev show ?thesis by blast
qed

text \<open>
  C9, as the claim states it, fails on the substring match: the source is pasted into
  the pattern as it is, so the underscore of \<^verbatim>\<open>D_lhi\<close> stands for any character and the
  search returns the train from Delhi, whose source does not contain \<^verbatim>\<open>d_lhi\<close>.
\<close>

theorem search_trains_wildcard_counterexample:
  "search_trains (Some ''D_lhi'') (Some ''mum'') None NoFault seed_db =
     Response 200 (TrainsBody [seed_trains ! 0] 1) \<and>
   source (seed_trains ! 0) = ''Delhi'' \<and>
   \<not> sublist (lower ''D_lhi'') (lower (source (seed_trains ! 0)))"
proof -
  have "search_trains (Some ''D_lhi'') (Some ''mum'') None NoFault seed_db =
     Response 200 (TrainsBody [seed_trains ! 0] 1)"
    by (simp add: search_defs)
  moreover have "source (seed_trains ! 0) = ''Delhi''" by (simp add: seed_trains_def)
  moreover have "lower ''D_lhi'' = ''d_lhi''" "lower ''Delhi'' = ''delhi''"
    by (simp_all add: lower_def lower_char_def)
  moreover have "\<not> sublist ''d_lhi'' ''delhi''" by code_simp
  ultimately show ?thesis by simp
qed

end
